theory Spec2Isabelle
  imports Complex_Main "HOL-Library.AList" "HOL-Library.Log_Nat"
begin

section \<open>Python values, dictionaries and errors\<close>

text \<open>
  The entities are stored as JSON documents and travel as Python dictionaries. A value
  of a dictionary is one of the JSON-serialisable Python values. A dictionary is an
  association list (Python keeps insertion order); a key is looked up with \<open>map_of\<close>.
  A \<open>float\<close> is the rational number it denotes (every finite double is one; NaN and
  the infinities are outside the model); comparisons of Python numbers are exact, so
  they are comparisons of these rationals.
\<close>

datatype pyval = PNone | PBool bool | PInt int | PFloat rat | PStr string
  | PDict "(string \<times> pyval) list" | PList "pyval list"

type_synonym pydict = "(string \<times> pyval) list"

text \<open>
  The exceptions of the source. \<open>NotFound\<close>, \<open>AlreadySent\<close> and \<open>ValidationError\<close> are
  all \<open>ValueError\<close> in the source, told apart by their message; \<open>InvalidIsoFormat\<close> is
  the \<open>ValueError\<close> of \<open>datetime.fromisoformat\<close>. \<open>IllTyped\<close> is not raised by the
  source: it marks a stored value whose Python type is not the declared type of the
  field, which Python would put into the object unchecked and which the typed records
  below cannot hold.
\<close>

datatype error = KeyError string | TypeError | AttributeError | ZeroDivisionError
  | InvalidIsoFormat | NotFound | AlreadySent | ValidationError | IllTyped

definition bindE :: "error + 'a \<Rightarrow> ('a \<Rightarrow> error + 'b) \<Rightarrow> error + 'b" where
  "bindE m f = (case m of Inl e \<Rightarrow> Inl e | Inr x \<Rightarrow> f x)"

text \<open>\<open>data[k]\<close>: raises \<open>KeyError\<close> when the key is missing.\<close>

definition get_item :: "pydict \<Rightarrow> string \<Rightarrow> error + pyval" where
  "get_item d k = (case map_of d k of None \<Rightarrow> Inl (KeyError k) | Some v \<Rightarrow> Inr v)"

definition as_str :: "pyval \<Rightarrow> error + string" where
  "as_str v = (case v of PStr s \<Rightarrow> Inr s | _ \<Rightarrow> Inl IllTyped)"

definition as_int :: "pyval \<Rightarrow> error + int" where
  "as_int v = (case v of PInt i \<Rightarrow> Inr i | _ \<Rightarrow> Inl IllTyped)"

definition as_bool :: "pyval \<Rightarrow> error + bool" where
  "as_bool v = (case v of PBool b \<Rightarrow> Inr b | _ \<Rightarrow> Inl IllTyped)"

text \<open>A JSON number without a fraction is loaded as \<open>int\<close>; as a float field it has the same value.\<close>

definition as_float :: "pyval \<Rightarrow> error + rat" where
  "as_float v = (case v of PFloat r \<Rightarrow> Inr r | PInt i \<Rightarrow> Inr (of_int i) | _ \<Rightarrow> Inl IllTyped)"

text \<open>Python's truth value of an object (\<open>bool(v)\<close>).\<close>

fun truthy :: "pyval \<Rightarrow> bool" where
  "truthy PNone = False"
| "truthy (PBool b) = b"
| "truthy (PInt i) = (i \<noteq> 0)"
| "truthy (PFloat r) = (r \<noteq> 0)"
| "truthy (PStr s) = (s \<noteq> [])"
| "truthy (PDict d) = (d \<noteq> [])"
| "truthy (PList l) = (l \<noteq> [])"

text \<open>
  The numeric value of a Python number (\<open>bool\<close> is a subclass of \<open>int\<close>); \<open>None\<close> for
  the values that are no numbers.
\<close>

fun num_of :: "pyval \<Rightarrow> rat option" where
  "num_of (PInt i) = Some (of_int i)"
| "num_of (PFloat r) = Some r"
| "num_of (PBool b) = Some (if b then 1 else 0)"
| "num_of _ = None"

text \<open>
  \<open>str.lower\<close> on the ASCII letters. A string is a list of 8-bit characters here, so
  the letters outside ASCII, which Python folds too, are left as they are.
\<close>

definition lower_char :: "char \<Rightarrow> char" where
  "lower_char c =
     (case map_of (zip ''ABCDEFGHIJKLMNOPQRSTUVWXYZ'' ''abcdefghijklmnopqrstuvwxyz'') c of
        Some d \<Rightarrow> d | None \<Rightarrow> c)"

definition lower :: "string \<Rightarrow> string" where
  "lower s = map lower_char s"

section \<open>models/customer.py\<close>

record customer =
  customer_id :: string
  name :: string
  email :: string
  city :: string
  age :: int
  spending_score :: int
  total_spent :: rat
  is_active :: bool

definition customer_to_dict :: "customer \<Rightarrow> pydict" where
  "customer_to_dict c =
     [(''id'', PStr (customer_id c)),
      (''name'', PStr (name c)),
      (''email'', PStr (email c)),
      (''city'', PStr (city c)),
      (''age'', PInt (age c)),
      (''spending_score'', PInt (spending_score c)),
      (''total_spent'', PFloat (total_spent c)),
      (''is_active'', PBool (is_active c))]"

definition customer_from_dict :: "pydict \<Rightarrow> error + customer" where
  "customer_from_dict data =
     bindE (bindE (get_item data ''id'') as_str) (\<lambda>i.
     bindE (bindE (get_item data ''name'') as_str) (\<lambda>n.
     bindE (bindE (get_item data ''email'') as_str) (\<lambda>e.
     bindE (bindE (get_item data ''city'') as_str) (\<lambda>ci.
     bindE (bindE (get_item data ''age'') as_int) (\<lambda>a.
     bindE (bindE (get_item data ''spending_score'') as_int) (\<lambda>sc.
     bindE (bindE (get_item data ''total_spent'') as_float) (\<lambda>ts.
     bindE (bindE (get_item data ''is_active'') as_bool) (\<lambda>ac.
     Inr \<lparr>customer_id = i, name = n, email = e, city = ci, age = a,
          spending_score = sc, total_spent = ts, is_active = ac\<rparr>))))))))"

section \<open>repository/json\_repo.py\<close>

text \<open>
  The backing file is the list of raw dictionaries that \<open>_read_all_raw\<close> returns (the
  empty list for a missing or corrupt file). \<open>get_all\<close> deserialises every item, and
  raises what \<open>from_dict\<close> raises on the first item that fails.
\<close>

fun get_all :: "(pydict \<Rightarrow> error + 'a) \<Rightarrow> pydict list \<Rightarrow> error + 'a list" where
  "get_all from_dict [] = Inr []"
| "get_all from_dict (item # raw_data) =
     bindE (from_dict item) (\<lambda>x.
     bindE (get_all from_dict raw_data) (\<lambda>xs. Inr (x # xs)))"

section \<open>services/segmentation.py\<close>

text \<open>
  One guarded test of \<open>_matches_criteria\<close> yields \<open>Inr True\<close> when it executes
  \<open>return False\<close>, \<open>Inr False\<close> when the customer passes it, and the exception when
  the comparison raises. \<open>check\<close> runs the rest of the function after a test.
\<close>

definition check :: "error + bool \<Rightarrow> error + bool \<Rightarrow> error + bool" where
  "check rejected rest =
     (case rejected of Inl e \<Rightarrow> Inl e | Inr True \<Rightarrow> Inr False | Inr False \<Rightarrow> rest)"

text \<open>
  \<open>if 'city' in criteria and criteria['city']: if customer.city.lower() !=
  criteria['city'].lower(): return False\<close>. Only a \<open>str\<close> has \<open>lower\<close>.
\<close>

definition city_rejects :: "customer \<Rightarrow> pydict \<Rightarrow> error + bool" where
  "city_rejects c criteria =
     (case map_of criteria ''city'' of
        None \<Rightarrow> Inr False
      | Some v \<Rightarrow>
          if truthy v
          then (case v of PStr s \<Rightarrow> Inr (lower (city c) \<noteq> lower s) | _ \<Rightarrow> Inl AttributeError)
          else Inr False)"

text \<open>
  \<open>if k in criteria and criteria[k] is not None: if x < criteria[k]: return False\<close>
  and the same with \<open>>\<close>. Ordering a number against a value that is no number raises
  \<open>TypeError\<close>.
\<close>

definition below_rejects :: "rat \<Rightarrow> string \<Rightarrow> pydict \<Rightarrow> error + bool" where
  "below_rejects x k criteria =
     (case map_of criteria k of
        None \<Rightarrow> Inr False
      | Some v \<Rightarrow>
          if v \<noteq> PNone
          then (case num_of v of Some b \<Rightarrow> Inr (x < b) | None \<Rightarrow> Inl TypeError)
          else Inr False)"

definition above_rejects :: "rat \<Rightarrow> string \<Rightarrow> pydict \<Rightarrow> error + bool" where
  "above_rejects x k criteria =
     (case map_of criteria k of
        None \<Rightarrow> Inr False
      | Some v \<Rightarrow>
          if v \<noteq> PNone
          then (case num_of v of Some b \<Rightarrow> Inr (x > b) | None \<Rightarrow> Inl TypeError)
          else Inr False)"

text \<open>
  \<open>if 'is_active' in criteria and criteria['is_active'] is not None: if
  customer.is_active != criteria['is_active']: return False\<close>. \<open>!=\<close> never raises: a
  \<open>bool\<close> differs from every value that is no number.
\<close>

definition active_rejects :: "customer \<Rightarrow> pydict \<Rightarrow> error + bool" where
  "active_rejects c criteria =
     (case map_of criteria ''is_active'' of
        None \<Rightarrow> Inr False
      | Some v \<Rightarrow>
          if v \<noteq> PNone
          then (case num_of v of
                  Some b \<Rightarrow> Inr ((if is_active c then 1 else 0) \<noteq> b)
                | None \<Rightarrow> Inr True)
          else Inr False)"

definition matches_criteria :: "customer \<Rightarrow> pydict \<Rightarrow> error + bool" where
  "matches_criteria c criteria =
     check (city_rejects c criteria)
    (check (below_rejects (of_int (age c)) ''min_age'' criteria)
    (check (above_rejects (of_int (age c)) ''max_age'' criteria)
    (check (below_rejects (total_spent c) ''min_spent'' criteria)
    (check (above_rejects (total_spent c) ''max_spent'' criteria)
    (check (below_rejects (of_int (spending_score c)) ''min_spending_score'' criteria)
    (check (above_rejects (of_int (spending_score c)) ''max_spending_score'' criteria)
    (check (active_rejects c criteria)
    (Inr True))))))))"

text \<open>The loop of \<open>filter_customers\<close>, with the list built so far.\<close>

fun filter_loop :: "customer list \<Rightarrow> pydict \<Rightarrow> customer list \<Rightarrow> error + customer list" where
  "filter_loop [] criteria filtered_customers = Inr filtered_customers"
| "filter_loop (c # cs) criteria filtered_customers =
     bindE (matches_criteria c criteria) (\<lambda>m.
     filter_loop cs criteria (if m then filtered_customers @ [c] else filtered_customers))"

definition filter_customers :: "pydict list \<Rightarrow> pydict \<Rightarrow> error + customer list" where
  "filter_customers customer_file criteria =
     bindE (get_all customer_from_dict customer_file) (\<lambda>all_customers.
     filter_loop all_customers criteria [])"

section \<open>The segmentation rules in the words of the specification\<close>

text \<open>
  The declared types of the criteria (docstring of \<open>filter_customers\<close>): \<open>city\<close> a
  string, the six bounds numbers, \<open>is_active\<close> a boolean; a key may be missing or hold
  \<open>None\<close>.
\<close>

definition numeric_keys :: "string list" where
  "numeric_keys = [''min_age'', ''max_age'', ''min_spent'', ''max_spent'',
                   ''min_spending_score'', ''max_spending_score'']"

definition well_typed_bound :: "pydict \<Rightarrow> string \<Rightarrow> bool" where
  "well_typed_bound criteria k =
     (case map_of criteria k of
        None \<Rightarrow> True | Some PNone \<Rightarrow> True | Some (PInt i) \<Rightarrow> True | Some (PFloat r) \<Rightarrow> True
      | Some _ \<Rightarrow> False)"

definition well_typed_criteria :: "pydict \<Rightarrow> bool" where
  "well_typed_criteria criteria \<longleftrightarrow>
     (case map_of criteria ''city'' of
        None \<Rightarrow> True | Some PNone \<Rightarrow> True | Some (PStr s) \<Rightarrow> True | Some _ \<Rightarrow> False) \<and>
     list_all (well_typed_bound criteria) numeric_keys \<and>
     (case map_of criteria ''is_active'' of
        None \<Rightarrow> True | Some PNone \<Rightarrow> True | Some (PBool b) \<Rightarrow> True | Some _ \<Rightarrow> False)"

text \<open>The bound that a criteria set holds under a key, if it holds one.\<close>

definition bound_of :: "pydict \<Rightarrow> string \<Rightarrow> rat option" where
  "bound_of criteria k =
     (case map_of criteria k of
        Some (PInt i) \<Rightarrow> Some (of_int i) | Some (PFloat r) \<Rightarrow> Some r | _ \<Rightarrow> None)"

text \<open>Inclusive bounds; an absent bound is no constraint.\<close>

definition lower_bound_ok :: "rat \<Rightarrow> string \<Rightarrow> pydict \<Rightarrow> bool" where
  "lower_bound_ok x k criteria = (case bound_of criteria k of Some b \<Rightarrow> b \<le> x | None \<Rightarrow> True)"

definition upper_bound_ok :: "rat \<Rightarrow> string \<Rightarrow> pydict \<Rightarrow> bool" where
  "upper_bound_ok x k criteria = (case bound_of criteria k of Some b \<Rightarrow> x \<le> b | None \<Rightarrow> True)"

text \<open>Exact boolean equality.\<close>

definition active_ok :: "customer \<Rightarrow> pydict \<Rightarrow> bool" where
  "active_ok c criteria =
     (case map_of criteria ''is_active'' of Some (PBool b) \<Rightarrow> is_active c = b | _ \<Rightarrow> True)"

text \<open>
  The city rule as the specification words it: a present city is matched exactly,
  ignoring case.
\<close>

definition city_ok_as_claimed :: "customer \<Rightarrow> pydict \<Rightarrow> bool" where
  "city_ok_as_claimed c criteria =
     (case map_of criteria ''city'' of Some (PStr s) \<Rightarrow> lower (city c) = lower s | _ \<Rightarrow> True)"

text \<open>The city rule with the empty string counted as no constraint.\<close>

definition city_ok :: "customer \<Rightarrow> pydict \<Rightarrow> bool" where
  "city_ok c criteria =
     (case map_of criteria ''city'' of
        Some (PStr s) \<Rightarrow> s = [] \<or> lower (city c) = lower s | _ \<Rightarrow> True)"

definition other_bounds_ok :: "customer \<Rightarrow> pydict \<Rightarrow> bool" where
  "other_bounds_ok c criteria \<longleftrightarrow>
     lower_bound_ok (of_int (age c)) ''min_age'' criteria \<and>
     upper_bound_ok (of_int (age c)) ''max_age'' criteria \<and>
     lower_bound_ok (total_spent c) ''min_spent'' criteria \<and>
     upper_bound_ok (total_spent c) ''max_spent'' criteria \<and>
     lower_bound_ok (of_int (spending_score c)) ''min_spending_score'' criteria \<and>
     upper_bound_ok (of_int (spending_score c)) ''max_spending_score'' criteria \<and>
     active_ok c criteria"

definition satisfies_as_claimed :: "customer \<Rightarrow> pydict \<Rightarrow> bool" where
  "satisfies_as_claimed c criteria \<longleftrightarrow> city_ok_as_claimed c criteria \<and> other_bounds_ok c criteria"

definition satisfies :: "customer \<Rightarrow> pydict \<Rightarrow> bool" where
  "satisfies c criteria \<longleftrightarrow> city_ok c criteria \<and> other_bounds_ok c criteria"

text \<open>A customer of Ankara, for the examples.\<close>

definition ayse :: customer where
  "ayse = \<lparr>customer_id = ''c-1'', name = ''Ayse'', email = ''ayse@example.com'',
           city = ''Ankara'', age = 30, spending_score = 55, total_spent = 1250,
           is_active = True\<rparr>"

section \<open>Strings and timestamps of the Python library\<close>

text \<open>
  \<open>str.strip()\<close>: removes the leading and trailing whitespace (the ASCII characters for
  which \<open>str.isspace\<close> holds).
\<close>

definition is_space :: "char \<Rightarrow> bool" where
  "is_space c \<longleftrightarrow> c \<in> set [CHR 0x09, CHR 0x0A, CHR 0x0B, CHR 0x0C, CHR 0x0D,
                            CHR 0x1C, CHR 0x1D, CHR 0x1E, CHR 0x1F, CHR 0x20]"

definition strip :: "string \<Rightarrow> string" where
  "strip s = rev (dropWhile is_space (rev (dropWhile is_space s)))"

text \<open>
  \<open>s.replace(old, new)\<close> for a non-empty \<open>old\<close> (the source only replaces the three
  placeholders): the occurrences are replaced from the left, without overlap, and the
  text put in is not scanned again.
\<close>

fun str_replace :: "string \<Rightarrow> string \<Rightarrow> string \<Rightarrow> string" where
  "str_replace old new [] = []"
| "str_replace old new (c # cs) =
     (if old \<noteq> [] \<and> take (length old) (c # cs) = old
      then new @ str_replace old new (drop (length old - 1) cs)
      else c # str_replace old new cs)"

text \<open>
  A naive \<open>datetime\<close> (what \<open>datetime.now()\<close> returns), with the ranges that every
  object of the class respects.
\<close>

record datetime =
  year :: nat
  month :: nat
  day :: nat
  hour :: nat
  minute :: nat
  second :: nat
  microsecond :: nat

definition is_leap :: "nat \<Rightarrow> bool" where
  "is_leap y \<longleftrightarrow> y mod 4 = 0 \<and> (y mod 100 \<noteq> 0 \<or> y mod 400 = 0)"

definition days_in_month :: "nat \<Rightarrow> nat \<Rightarrow> nat" where
  "days_in_month y m =
     (if m = 2 then (if is_leap y then 29 else 28)
      else if m \<in> set [4, 6, 9, 11] then 30 else 31)"

definition valid_datetime :: "datetime \<Rightarrow> bool" where
  "valid_datetime d \<longleftrightarrow>
     1 \<le> year d \<and> year d \<le> 9999 \<and> 1 \<le> month d \<and> month d \<le> 12 \<and>
     1 \<le> day d \<and> day d \<le> days_in_month (year d) (month d) \<and>
     hour d < 24 \<and> minute d < 60 \<and> second d < 60 \<and> microsecond d < 1000000"

text \<open>The decimal digits of \<open>n\<close> in a field of width \<open>k\<close>, padded with zeros (\<open>%0kd\<close>).\<close>

definition digit_char :: "nat \<Rightarrow> char" where
  "digit_char d = ''0123456789'' ! d"

fun pad :: "nat \<Rightarrow> nat \<Rightarrow> string" where
  "pad 0 n = []"
| "pad (Suc k) n = pad k (n div 10) @ [digit_char (n mod 10)]"

definition digit_val :: "char \<Rightarrow> nat option" where
  "digit_val c = map_of (zip ''0123456789'' [0, 1, 2, 3, 4, 5, 6, 7, 8, 9]) c"

definition digits_val :: "string \<Rightarrow> nat option" where
  "digits_val s =
     foldl (\<lambda>acc c. case (acc, digit_val c) of (Some a, Some d) \<Rightarrow> Some (10 * a + d) | _ \<Rightarrow> None)
       (Some 0) s"

text \<open>
  \<open>datetime.isoformat()\<close> of a naive datetime: \<open>YYYY-MM-DDTHH:MM:SS\<close>, followed by
  \<open>.ffffff\<close> when the microsecond is not 0.
\<close>

definition isoformat :: "datetime \<Rightarrow> string" where
  "isoformat d =
     pad 4 (year d) @ ''-'' @ pad 2 (month d) @ ''-'' @ pad 2 (day d) @ ''T'' @
     pad 2 (hour d) @ '':'' @ pad 2 (minute d) @ '':'' @ pad 2 (second d) @
     (if microsecond d = 0 then [] else ''.'' @ pad 6 (microsecond d))"

text \<open>
  \<open>datetime.fromisoformat\<close> on the two forms that \<open>isoformat\<close> writes for a naive
  datetime; every other string is rejected here (Python accepts some more forms,
  which this system never writes). The fields are checked against their ranges, as
  the constructor of \<open>datetime\<close> does.
\<close>

definition fromisoformat :: "string \<Rightarrow> error + datetime" where
  "fromisoformat s =
     (if (length s = 19 \<or> (length s = 26 \<and> s ! 19 = CHR ''.'')) \<and>
         s ! 4 = CHR ''-'' \<and> s ! 7 = CHR ''-'' \<and> s ! 10 = CHR ''T'' \<and>
         s ! 13 = CHR '':'' \<and> s ! 16 = CHR '':''
      then
        (case (digits_val (take 4 s), digits_val (take 2 (drop 5 s)),
               digits_val (take 2 (drop 8 s)), digits_val (take 2 (drop 11 s)),
               digits_val (take 2 (drop 14 s)), digits_val (take 2 (drop 17 s)),
               digits_val (drop 20 s)) of
           (Some y, Some mo, Some dd, Some h, Some mi, Some se, Some us) \<Rightarrow>
             (let d = \<lparr>year = y, month = mo, day = dd, hour = h, minute = mi,
                       second = se, microsecond = us\<rparr>
              in if valid_datetime d then Inr d else Inl InvalidIsoFormat)
         | _ \<Rightarrow> Inl InvalidIsoFormat)
      else Inl InvalidIsoFormat)"

section \<open>models/campaign.py\<close>

text \<open>
  \<open>created_at\<close> is declared \<open>Optional[datetime]\<close>, but \<open>__post_init__\<close> replaces \<open>None\<close> by
  the current time, so a constructed campaign always holds a datetime. \<open>stats\<close> is the
  dictionary of the counters.
\<close>

record campaign =
  campaign_id :: string
  title :: string
  content_template :: string
  target_segment_criteria :: pydict
  status :: string
  created_at :: datetime
  stats :: "(string \<times> int) list"

definition campaign_to_dict :: "campaign \<Rightarrow> pydict" where
  "campaign_to_dict c =
     [(''id'', PStr (campaign_id c)),
      (''title'', PStr (title c)),
      (''content_template'', PStr (content_template c)),
      (''target_segment_criteria'', PDict (target_segment_criteria c)),
      (''status'', PStr (status c)),
      (''created_at'', PStr (isoformat (created_at c))),
      (''stats'', PDict (map (\<lambda>(k, v). (k, PInt v)) (stats c)))]"

definition as_dict :: "pyval \<Rightarrow> error + pydict" where
  "as_dict v = (case v of PDict d \<Rightarrow> Inr d | _ \<Rightarrow> Inl IllTyped)"

fun as_stats :: "pydict \<Rightarrow> error + (string \<times> int) list" where
  "as_stats [] = Inr []"
| "as_stats ((k, v) # d) =
     bindE (as_int v) (\<lambda>i. bindE (as_stats d) (\<lambda>r. Inr ((k, i) # r)))"

text \<open>
  \<open>from_dict\<close> first parses \<open>created_at\<close> when it is a string, then reads the fields in
  the order of the constructor call; \<open>status\<close> and \<open>stats\<close> have defaults. \<open>now\<close> is the
  clock that \<open>__post_init__\<close> reads when \<open>created_at\<close> is missing or \<open>None\<close>.
\<close>

definition campaign_from_dict :: "datetime \<Rightarrow> pydict \<Rightarrow> error + campaign" where
  "campaign_from_dict now data =
     bindE (case map_of data ''created_at'' of
              None \<Rightarrow> Inr now
            | Some PNone \<Rightarrow> Inr now
            | Some (PStr s) \<Rightarrow> fromisoformat s
            | Some _ \<Rightarrow> Inl IllTyped) (\<lambda>created.
     bindE (bindE (get_item data ''id'') as_str) (\<lambda>i.
     bindE (bindE (get_item data ''title'') as_str) (\<lambda>t.
     bindE (bindE (get_item data ''content_template'') as_str) (\<lambda>ct.
     bindE (bindE (get_item data ''target_segment_criteria'') as_dict) (\<lambda>cr.
     bindE (case map_of data ''status'' of None \<Rightarrow> Inr ''Draft'' | Some v \<Rightarrow> as_str v) (\<lambda>st.
     bindE (case map_of data ''stats'' of
              None \<Rightarrow> Inr [(''sent'', 0), (''opened'', 0), (''clicked'', 0)]
            | Some v \<Rightarrow> bindE (as_dict v) as_stats) (\<lambda>sts.
     Inr \<lparr>campaign_id = i, title = t, content_template = ct, target_segment_criteria = cr,
          status = st, created_at = created, stats = sts\<rparr>)))))))"

section \<open>repository/json\_repo.py, single entities\<close>

text \<open>\<open>get_by_id\<close> deserialises the first item whose \<open>id\<close> is the one asked for.\<close>

fun get_by_id :: "(pydict \<Rightarrow> error + 'a) \<Rightarrow> pydict list \<Rightarrow> string \<Rightarrow> error + 'a option" where
  "get_by_id from_dict [] entity_id = Inr None"
| "get_by_id from_dict (item # raw_data) entity_id =
     (if map_of item ''id'' = Some (PStr entity_id)
      then bindE (from_dict item) (\<lambda>x. Inr (Some x))
      else get_by_id from_dict raw_data entity_id)"


text \<open>
  \<open>update\<close> replaces the first item with the id and writes the file; without such an
  item it writes nothing and returns \<open>None\<close>.
\<close>

fun update :: "('a \<Rightarrow> pydict) \<Rightarrow> pydict list \<Rightarrow> string \<Rightarrow> 'a \<Rightarrow> pydict list \<times> 'a option" where
  "update to_dict [] entity_id entity = ([], None)"
| "update to_dict (item # raw_data) entity_id entity =
     (if map_of item ''id'' = Some (PStr entity_id)
      then (to_dict entity # raw_data, Some entity)
      else (let (raw', r) = update to_dict raw_data entity_id entity in (item # raw', r)))"

section \<open>services/campaign.py\<close>


text \<open>A timestamp and a campaign for the examples.\<close>

definition leap_day :: datetime where
  "leap_day = \<lparr>year = 2024, month = 2, day = 29, hour = 13, minute = 5, second = 9,
               microsecond = 123\<rparr>"

definition ankara_sale :: campaign where
  "ankara_sale = \<lparr>campaign_id = ''k-1'', title = ''Sale'',
                   content_template = ''Hello {name} from {city}!'',
                   target_segment_criteria = [(''city'', PStr ''Ankara'')],
                   status = ''Draft'', created_at = leap_day,
                   stats = [(''sent'', 0), (''opened'', 0), (''clicked'', 0)]\<rparr>"

text \<open>
  \<open>_personalize_content\<close>: the three placeholders are replaced one after the other, so
  a placeholder inside a name or an address already put in is replaced as well.
\<close>

definition personalize_content :: "string \<Rightarrow> customer \<Rightarrow> string" where
  "personalize_content template customer =
     str_replace ''{city}'' (city customer)
       (str_replace ''{email}'' (email customer)
          (str_replace ''{name}'' (name customer) template))"

text \<open>
  The email providers (services/email\_service.py). A call of \<open>send\<close> passes the
  recipient, the subject and the body and returns whether the mail was delivered. The
  mock provider always returns \<open>True\<close>. What the SMTP provider returns is decided outside
  the program: it is a parameter \<open>smtp\<close>, a function of the state \<open>'s\<close> of the mail
  system, which a call may change.
\<close>

type_synonym message = "string \<times> string \<times> string"

type_synonym 's provider = "'s \<Rightarrow> message \<Rightarrow> bool \<times> 's"

definition mock_send :: "'s provider" where
  "mock_send s msg = (True, s)"

definition create_provider :: "'s provider \<Rightarrow> bool \<Rightarrow> 's provider" where
  "create_provider smtp use_real_email = (if use_real_email then smtp else mock_send)"

text \<open>
  What \<open>launch_campaign\<close> reads and writes: the two backing files, the mail system, and
  the list of the calls of \<open>send\<close> made so far, in their order.
\<close>

record 's world =
  campaigns_json :: "pydict list"
  customers_json :: "pydict list"
  mail_system :: 's
  outbox :: "message list"

text \<open>
  The loop over the target customers, with the counters, the mail system and the calls
  made so far.
\<close>

fun send_loop ::
  "'s provider \<Rightarrow> campaign \<Rightarrow> customer list \<Rightarrow> int \<times> int \<times> 's \<times> message list
     \<Rightarrow> int \<times> int \<times> 's \<times> message list" where
  "send_loop email_provider campaign [] acc = acc"
| "send_loop email_provider campaign (customer # rest) (emails_sent, emails_failed, s, out) =
     (let personalized_content = personalize_content (content_template campaign) customer;
          msg = (email customer, title campaign, personalized_content);
          (success, s') = email_provider s msg
      in if success
         then send_loop email_provider campaign rest
                (emails_sent + 1, emails_failed, s', out @ [msg])
         else send_loop email_provider campaign rest
                (emails_sent, emails_failed + 1, s', out @ [msg]))"

text \<open>
  \<open>launch_campaign\<close>: what the call returns (the result dictionary) or raises, and the
  world after it. The result of \<open>update\<close> is not looked at by the source.
\<close>

definition launch_campaign ::
  "'s provider \<Rightarrow> datetime \<Rightarrow> 's world \<Rightarrow> string \<Rightarrow> bool \<Rightarrow> (error + pydict) \<times> 's world" where
  "launch_campaign smtp now w cid use_real_email =
     (case get_by_id (campaign_from_dict now) (campaigns_json w) cid of
        Inl e \<Rightarrow> (Inl e, w)
      | Inr None \<Rightarrow> (Inl NotFound, w)
      | Inr (Some campaign) \<Rightarrow>
          if status campaign = ''Sent'' then (Inl AlreadySent, w)
          else
            (case filter_customers (customers_json w) (target_segment_criteria campaign) of
               Inl e \<Rightarrow> (Inl e, w)
             | Inr target_customers \<Rightarrow>
                 if target_customers = []
                 then (Inr [(''success'', PBool False),
                            (''message'', PStr ''No customers match target criteria''),
                            (''emails_sent'', PInt 0),
                            (''target_audience_size'', PInt 0)], w)
                 else
                   (let email_provider = create_provider smtp use_real_email;
                        (emails_sent, emails_failed, s', out') =
                           send_loop email_provider campaign target_customers
                             (0, 0, mail_system w, outbox w);
                        campaign' = campaign\<lparr>stats := AList.update ''sent'' emails_sent
                                                          (stats campaign),
                                              status := ''Sent''\<rparr>;
                        (file', r) = update campaign_to_dict (campaigns_json w)
                                       (campaign_id campaign') campaign'
                    in (Inr [(''success'', PBool True),
                             (''message'', PStr ''Campaign launched successfully''),
                             (''emails_sent'', PInt emails_sent),
                             (''emails_failed'', PInt emails_failed),
                             (''target_audience_size'', PInt (int (length target_customers))),
                             (''campaign_id'', PStr (campaign_id campaign'))],
                        w\<lparr>campaigns_json := file', mail_system := s', outbox := out'\<rparr>))))"

section \<open>The launch in the words of the specification\<close>

text \<open>The one mail that a launch of the campaign sends to a customer.\<close>

definition message_for :: "campaign \<Rightarrow> customer \<Rightarrow> message" where
  "message_for campaign customer =
     (email customer, title campaign,
      personalize_content (content_template campaign) customer)"

text \<open>
  What the provider answers to a list of mails sent one after the other, and the mail
  system after them.
\<close>

fun outcomes :: "'s provider \<Rightarrow> 's \<Rightarrow> message list \<Rightarrow> bool list" where
  "outcomes send s [] = []"
| "outcomes send s (m # ms) = fst (send s m) # outcomes send (snd (send s m)) ms"

fun after_sending :: "'s provider \<Rightarrow> 's \<Rightarrow> message list \<Rightarrow> 's" where
  "after_sending send s [] = s"
| "after_sending send s (m # ms) = after_sending send (snd (send s m)) ms"

definition successes :: "bool list \<Rightarrow> int" where
  "successes bs = int (length (filter (\<lambda>b. b) bs))"

definition failures :: "bool list \<Rightarrow> int" where
  "failures bs = int (length (filter (\<lambda>b. \<not> b) bs))"

text \<open>The campaign as a launch with \<open>n\<close> delivered mails leaves it.\<close>

definition launched :: "campaign \<Rightarrow> int \<Rightarrow> campaign" where
  "launched c n = c\<lparr>stats := AList.update ''sent'' n (stats c), status := ''Sent''\<rparr>"

text \<open>What the chosen provider answers to the mails of a launch, one per target customer.\<close>

definition delivered :: "'s provider \<Rightarrow> bool \<Rightarrow> 's world \<Rightarrow> campaign \<Rightarrow> customer list \<Rightarrow> bool list" where
  "delivered smtp use_real_email w c audience =
     outcomes (create_provider smtp use_real_email) (mail_system w) (map (message_for c) audience)"

text \<open>
  Two more customers, a world with the three customers and the campaign for Ankara, and
  a mail system that refuses one address, for the examples.
\<close>

definition zeynep :: customer where
  "zeynep = \<lparr>customer_id = ''c-2'', name = ''Zeynep'', email = ''zeynep@example.com'',
             city = ''ANKARA'', age = 41, spending_score = 70, total_spent = 300,
             is_active = False\<rparr>"

definition can :: customer where
  "can = \<lparr>customer_id = ''c-3'', name = ''Can'', email = ''can@example.com'',
          city = ''Izmir'', age = 25, spending_score = 20, total_spent = 80,
          is_active = True\<rparr>"

definition office :: "unit world" where
  "office = \<lparr>campaigns_json = [campaign_to_dict ankara_sale],
             customers_json = [customer_to_dict ayse, customer_to_dict can,
                               customer_to_dict zeynep],
             mail_system = (), outbox = []\<rparr>"

definition flaky_smtp :: "unit provider" where
  "flaky_smtp s msg = (fst msg \<noteq> ''zeynep@example.com'', s)"

section \<open>Python floats\<close>

text \<open>
  A Python \<open>float\<close> is an IEEE 754 binary64 number, and every operation on floats
  returns the float nearest to the exact result, ties going to the even significand.
  \<open>fl\<close> is this rounding, with 53 significant bits; the exponent is not bounded here,
  so overflow and subnormal numbers are outside the model (the counters of a campaign
  are far from both).
\<close>

definition round_half_even :: "rat \<Rightarrow> int" where
  "round_half_even x =
     (let f = \<lfloor>x\<rfloor>; d = x - of_int f
      in if d < 1 / 2 then f else if d > 1 / 2 then f + 1 else if even f then f else f + 1)"

text \<open>The \<open>e\<close> with \<open>2 ^ e \<le> \<bar>x\<bar> < 2 ^ (e + 1)\<close>, for \<open>x \<noteq> 0\<close>.\<close>

definition exponent :: "rat \<Rightarrow> int" where
  "exponent x =
     (let (p, q) = quotient_of \<bar>x\<bar>; k = bitlen p - bitlen q
      in if 2 powi k \<le> \<bar>x\<bar> then k else k - 1)"

definition fl :: "rat \<Rightarrow> rat" where
  "fl x = (if x = 0 then 0
           else let q = exponent x - 52
                in of_int (round_half_even (x / 2 powi q)) * 2 powi q)"

text \<open>\<open>float(n)\<close>, and the product and the sum of two floats.\<close>

definition py_float :: "int \<Rightarrow> rat" where
  "py_float n = fl (of_int n)"

definition fmul :: "rat \<Rightarrow> rat \<Rightarrow> rat" where
  "fmul x y = fl (x * y)"

definition fadd :: "rat \<Rightarrow> rat \<Rightarrow> rat" where
  "fadd x y = fl (x + y)"

text \<open>
  \<open>a / b\<close> on two \<open>int\<close> is the quotient, correctly rounded; \<open>x / n\<close> on a float and an
  \<open>int\<close> converts \<open>n\<close> first (\<open>float(n)\<close> is 0.0 only for \<open>n = 0\<close>). Both raise
  \<open>ZeroDivisionError\<close> for the divisor 0.
\<close>

definition py_truediv :: "int \<Rightarrow> int \<Rightarrow> error + rat" where
  "py_truediv a b = (if b = 0 then Inl ZeroDivisionError else Inr (fl (of_int a / of_int b)))"


text \<open>
  \<open>round(x, ndigits)\<close> on a float: the exact value of \<open>x\<close> is rounded to \<open>ndigits\<close>
  decimals, ties to even, and the float nearest to that decimal is returned. On an
  \<open>int\<close>, \<open>round\<close> with \<open>ndigits \<ge> 0\<close> returns the \<open>int\<close>.
\<close>

definition py_round :: "rat \<Rightarrow> nat \<Rightarrow> rat" where
  "py_round x ndigits = fl (of_int (round_half_even (x * 10 ^ ndigits)) / 10 ^ ndigits)"

definition py_round_val :: "pyval \<Rightarrow> nat \<Rightarrow> pyval" where
  "py_round_val v ndigits = (case v of PFloat x \<Rightarrow> PFloat (py_round x ndigits) | _ \<Rightarrow> v)"

text \<open>\<open>int(x)\<close> on a float cuts the fraction off, towards 0.\<close>

definition py_int :: "rat \<Rightarrow> int" where
  "py_int x = (if 0 \<le> x then \<lfloor>x\<rfloor> else \<lceil>x\<rceil>)"

text \<open>The value of a number in float arithmetic (an \<open>int\<close> operand is converted first).\<close>

definition float_value :: "pyval \<Rightarrow> rat" where
  "float_value v = (case v of PFloat x \<Rightarrow> x | PInt i \<Rightarrow> py_float i | _ \<Rightarrow> 0)"

section \<open>services/segmentation.py, statistics\<close>





section \<open>services/analytics.py\<close>

text \<open>\<open>stats.get(k, 0)\<close>\<close>

definition stats_get :: "(string \<times> int) list \<Rightarrow> string \<Rightarrow> int" where
  "stats_get sts k = (case map_of sts k of Some v \<Rightarrow> v | None \<Rightarrow> 0)"

text \<open>\<open>(a / b * 100) if b > 0 else 0\<close>: a float, or the \<open>int\<close> 0.\<close>

definition rate :: "int \<Rightarrow> int \<Rightarrow> error + pyval" where
  "rate a b =
     (if b > 0 then bindE (py_truediv a b) (\<lambda>q. Inr (PFloat (fmul q (py_float 100))))
      else Inr (PInt 0))"

text \<open>\<open>min(100, x)\<close> returns its first argument unless the second is smaller.\<close>

definition min_100 :: "rat \<Rightarrow> pyval" where
  "min_100 x = (if x < 100 then PFloat x else PInt 100)"

definition get_campaign_performance :: "datetime \<Rightarrow> pydict list \<Rightarrow> string \<Rightarrow> error + pydict" where
  "get_campaign_performance now campaign_file cid =
     (case get_by_id (campaign_from_dict now) campaign_file cid of
        Inl e \<Rightarrow> Inl e
      | Inr None \<Rightarrow> Inl NotFound
      | Inr (Some campaign) \<Rightarrow>
          (let sent = stats_get (stats campaign) ''sent'';
               opened = stats_get (stats campaign) ''opened'';
               clicked = stats_get (stats campaign) ''clicked'';
               failed = stats_get (stats campaign) ''failed'';
               total_attempted = sent + failed
           in bindE (rate sent total_attempted) (\<lambda>delivery_rate.
              bindE (rate opened sent) (\<lambda>open_rate.
              bindE (rate clicked opened) (\<lambda>click_rate.
              bindE (rate clicked sent) (\<lambda>click_through_rate.
              (let roi_prediction = fmul (py_float clicked) 15;
                   engagement_score =
                     min_100 (fadd (fmul (float_value open_rate) (fl (6 / 10)))
                                   (fmul (float_value click_through_rate) 4))
               in Inr [(''sent'', PInt sent),
                       (''opened'', PInt opened),
                       (''clicked'', PInt clicked),
                       (''failed'', PInt failed),
                       (''delivery_rate'', py_round_val delivery_rate 2),
                       (''open_rate'', py_round_val open_rate 2),
                       (''click_rate'', py_round_val click_rate 2),
                       (''click_through_rate'', py_round_val click_through_rate 2),
                       (''roi_prediction'', PFloat (py_round roi_prediction 2)),
                       (''engagement_score'', py_round_val engagement_score 1),
                       (''campaign_title'', PStr (title campaign)),
                       (''campaign_status'', PStr (status campaign)),
                       (''target_criteria'',
                          PDict (target_segment_criteria campaign))])))))))"

text \<open>
  \<open>simulate_engagement\<close>. \<open>open_rate\<close> and \<open>click_rate_of_opens\<close> are the two floats that
  \<open>random.uniform(0.25, 0.65)\<close> and \<open>random.uniform(0.05, 0.20)\<close> draw. The result is the
  campaign that the call returns, or what it raises, and the campaign file after it.
\<close>

definition simulate_engagement ::
  "datetime \<Rightarrow> rat \<Rightarrow> rat \<Rightarrow> pydict list \<Rightarrow> string \<Rightarrow> (error + campaign) \<times> pydict list" where
  "simulate_engagement now open_rate click_rate_of_opens campaign_file cid =
     (case get_by_id (campaign_from_dict now) campaign_file cid of
        Inl e \<Rightarrow> (Inl e, campaign_file)
      | Inr None \<Rightarrow> (Inl NotFound, campaign_file)
      | Inr (Some campaign) \<Rightarrow>
          if stats_get (stats campaign) ''sent'' > 0 \<and>
             stats_get (stats campaign) ''opened'' = 0 \<and>
             stats_get (stats campaign) ''clicked'' = 0
          then
            (let emails_sent = stats_get (stats campaign) ''sent'';
                 emails_opened = py_int (fmul (py_float emails_sent) open_rate);
                 emails_clicked = py_int (fmul (py_float emails_opened) click_rate_of_opens);
                 campaign' = campaign\<lparr>stats :=
                     AList.update ''clicked'' emails_clicked
                       (AList.update ''opened'' emails_opened (stats campaign))\<rparr>;
                 (file', r) = update campaign_to_dict campaign_file cid campaign'
             in (Inr campaign', file'))
          else (Inr campaign, campaign_file))"

section \<open>The analytics in the words of the specification\<close>

text \<open>
  \<open>a / b \<times> 100\<close> rounded to 2 decimals, and 0 when the denominator is 0; the same ratio
  before it is rounded.
\<close>

definition ratio_100 :: "int \<Rightarrow> int \<Rightarrow> rat" where
  "ratio_100 a b = (if b = 0 then 0 else fmul (fl (of_int a / of_int b)) 100)"

definition percent :: "int \<Rightarrow> int \<Rightarrow> pyval" where
  "percent a b = (if b = 0 then PInt 0 else PFloat (py_round (ratio_100 a b) 2))"

text \<open>\<open>min(100, open_rate \<times> 0.6 + click_through_rate \<times> 4.0)\<close>, rounded to 1 decimal.\<close>

definition engagement :: "int \<Rightarrow> int \<Rightarrow> int \<Rightarrow> pyval" where
  "engagement sent opened clicked =
     (let x = fadd (fmul (ratio_100 opened sent) (fl (6 / 10))) (fmul (ratio_100 clicked sent) 4)
      in if x < 100 then PFloat (py_round x 1) else PInt 100)"


text \<open>The trigger of the simulation: sent, and neither opened nor clicked yet.\<close>

definition just_launched :: "campaign \<Rightarrow> bool" where
  "just_launched c \<longleftrightarrow>
     stats_get (stats c) ''sent'' > 0 \<and> stats_get (stats c) ''opened'' = 0 \<and>
     stats_get (stats c) ''clicked'' = 0"

text \<open>The campaign with the simulated counters.\<close>

definition simulated :: "campaign \<Rightarrow> int \<Rightarrow> int \<Rightarrow> campaign" where
  "simulated c n_opened n_clicked =
     c\<lparr>stats := AList.update ''clicked'' n_clicked (AList.update ''opened'' n_opened (stats c))\<rparr>"

text \<open>A campaign that was sent to 100 customers, with its file, for the examples.\<close>

definition sent_sale :: campaign where
  "sent_sale = ankara_sale\<lparr>status := ''Sent'',
                 stats := [(''sent'', 100), (''opened'', 0), (''clicked'', 0)]\<rparr>"

definition read_sale :: campaign where
  "read_sale = ankara_sale\<lparr>status := ''Sent'',
                 stats := [(''sent'', 100), (''opened'', 40), (''clicked'', 8), (''failed'', 0)]\<rparr>"

text \<open>
  The counters of a simulation: \<open>floor(sent \<times> r)\<close> opened and \<open>floor(opened \<times> r)\<close>
  clicked, the products being products of floats, and the campaign with both.
\<close>

definition opened_by :: "campaign \<Rightarrow> rat \<Rightarrow> int" where
  "opened_by c r = \<lfloor>fmul (py_float (stats_get (stats c) ''sent'')) r\<rfloor>"

definition clicked_by :: "int \<Rightarrow> rat \<Rightarrow> int" where
  "clicked_by n_opened r = \<lfloor>fmul (py_float n_opened) r\<rfloor>"

definition simulation :: "campaign \<Rightarrow> rat \<Rightarrow> rat \<Rightarrow> campaign" where
  "simulation c r1 r2 = simulated c (opened_by c r1) (clicked_by (opened_by c r1) r2)"

section \<open>Properties\<close>

subsection \<open>Auxiliary facts\<close>

lemma bindE_simps [simp]: "bindE (Inl e) f = Inl e" "bindE (Inr x) f = f x"
  by (simp_all add: bindE_def)

lemma bindE_eq_Inr: "bindE m f = Inr y \<longleftrightarrow> (\<exists>x. m = Inr x \<and> f x = Inr y)"
  by (cases m) auto

lemma check_Inr [simp]: "check (Inr r) rest = (if r then Inr False else rest)"
  by (simp add: check_def)

lemma check_True_iff: "check a rest = Inr True \<longleftrightarrow> a = Inr False \<and> rest = Inr True"
  by (auto simp: check_def split: sum.splits bool.splits)

lemma customer_round_trip: "customer_from_dict (customer_to_dict c) = Inr c"
  by (simp add: customer_from_dict_def customer_to_dict_def get_item_def as_str_def
      as_int_def as_float_def as_bool_def)

subsection \<open>Segmentation\<close>

lemma filter_loop_filter:
  "(\<And>c. c \<in> set cs \<Longrightarrow> matches_criteria c criteria = Inr (P c)) \<Longrightarrow>
   filter_loop cs criteria acc = Inr (acc @ filter P cs)"
  by (induction cs arbitrary: acc) auto

lemma city_rejects_wt:
  "well_typed_criteria criteria \<Longrightarrow> city_rejects c criteria = Inr (\<not> city_ok c criteria)"
  by (auto simp: well_typed_criteria_def city_rejects_def city_ok_def
      split: option.splits pyval.splits)

lemma below_rejects_wt:
  "well_typed_bound criteria k \<Longrightarrow>
   below_rejects x k criteria = Inr (\<not> lower_bound_ok x k criteria)"
  by (auto simp: well_typed_bound_def below_rejects_def lower_bound_ok_def bound_of_def
      split: option.splits pyval.splits)

lemma above_rejects_wt:
  "well_typed_bound criteria k \<Longrightarrow>
   above_rejects x k criteria = Inr (\<not> upper_bound_ok x k criteria)"
  by (auto simp: well_typed_bound_def above_rejects_def upper_bound_ok_def bound_of_def
      split: option.splits pyval.splits)

lemma active_rejects_wt:
  "well_typed_criteria criteria \<Longrightarrow> active_rejects c criteria = Inr (\<not> active_ok c criteria)"
  by (auto simp: well_typed_criteria_def active_rejects_def active_ok_def
      split: option.splits pyval.splits)

lemma well_typed_boundI:
  "well_typed_criteria criteria \<Longrightarrow> k \<in> set numeric_keys \<Longrightarrow> well_typed_bound criteria k"
  by (simp add: well_typed_criteria_def list_all_iff)

lemma matches_criteria_wt:
  assumes "well_typed_criteria criteria"
  shows "matches_criteria c criteria = Inr (satisfies c criteria)"
proof -
  have k: "well_typed_bound criteria ''min_age''" "well_typed_bound criteria ''max_age''"
    "well_typed_bound criteria ''min_spent''" "well_typed_bound criteria ''max_spent''"
    "well_typed_bound criteria ''min_spending_score''"
    "well_typed_bound criteria ''max_spending_score''"
    using assms by (simp_all add: well_typed_boundI numeric_keys_def)
  show ?thesis
    unfolding matches_criteria_def
    by (simp add: city_rejects_wt [OF assms] active_rejects_wt [OF assms]
        below_rejects_wt k above_rejects_wt satisfies_def other_bounds_ok_def)
qed

lemma matches_criteria_empty: "matches_criteria c [] = Inr True"
  by (simp add: matches_criteria_def city_rejects_def below_rejects_def above_rejects_def
      active_rejects_def)

lemma matches_criteria_empty_city: "matches_criteria c [(''city'', PStr [])] = Inr True"
  by (simp add: matches_criteria_def city_rejects_def below_rejects_def above_rejects_def
      active_rejects_def)

lemma below_rejects_passes:
  "below_rejects x k criteria = Inr False \<Longrightarrow> lower_bound_ok x k criteria"
  by (auto simp: below_rejects_def lower_bound_ok_def bound_of_def
      split: option.splits pyval.splits if_splits)

lemma above_rejects_passes:
  "above_rejects x k criteria = Inr False \<Longrightarrow> upper_bound_ok x k criteria"
  by (auto simp: above_rejects_def upper_bound_ok_def bound_of_def
      split: option.splits pyval.splits if_splits)

lemma active_rejects_passes: "active_rejects c criteria = Inr False \<Longrightarrow> active_ok c criteria"
  by (auto simp: active_rejects_def active_ok_def split: option.splits pyval.splits if_splits)

lemma matched_other_bounds_ok:
  "matches_criteria c criteria = Inr True \<Longrightarrow> other_bounds_ok c criteria"
  by (simp add: matches_criteria_def check_True_iff other_bounds_ok_def below_rejects_passes
      above_rejects_passes active_rejects_passes)

text \<open>
  C2 (as amended). For every population of customers and every criteria set (its
  values of the declared types), \<open>filter_customers\<close> returns, in the order of the file,
  exactly the customers that satisfy every present criterion: the city ignoring case,
  where a city that is the empty string counts as no constraint; the six numeric bounds
  inclusively; \<open>is_active\<close> by equality; an absent or null field is no constraint. With
  no criteria it returns the whole population.
\<close>

theorem filter_customers_exact:
  assumes "well_typed_criteria criteria"
    and "get_all customer_from_dict customer_file = Inr population"
  shows "filter_customers customer_file criteria
           = Inr (filter (\<lambda>c. satisfies c criteria) population)
         \<and> filter_customers customer_file [] = Inr population"
  using assms
  by (simp add: filter_customers_def filter_loop_filter matches_criteria_wt
      filter_loop_filter [where P = "\<lambda>c. True"] matches_criteria_empty)

theorem filter_customers_exact_witness:
  "well_typed_criteria [(''city'', PStr ''ANKARA''), (''min_age'', PInt 30), (''max_spent'', PFloat 2000)]
   \<and> get_all customer_from_dict
        [customer_to_dict ayse, customer_to_dict (ayse\<lparr>name := ''Can'', age := 29\<rparr>)]
       = Inr [ayse, ayse\<lparr>name := ''Can'', age := 29\<rparr>]
   \<and> filter_customers
        [customer_to_dict ayse, customer_to_dict (ayse\<lparr>name := ''Can'', age := 29\<rparr>)]
        [(''city'', PStr ''ANKARA''), (''min_age'', PInt 30), (''max_spent'', PFloat 2000)]
       = Inr [ayse]"
proof -
  have wt: "well_typed_criteria
      [(''city'', PStr ''ANKARA''), (''min_age'', PInt 30), (''max_spent'', PFloat 2000)]"
    by (simp add: well_typed_criteria_def well_typed_bound_def numeric_keys_def)
  have pop: "get_all customer_from_dict
        [customer_to_dict ayse, customer_to_dict (ayse\<lparr>name := ''Can'', age := 29\<rparr>)]
       = Inr [ayse, ayse\<lparr>name := ''Can'', age := 29\<rparr>]"
    by (simp add: customer_round_trip)
  show ?thesis
    using filter_customers_exact [OF wt pop] wt pop
    by (simp add: satisfies_def city_ok_def other_bounds_ok_def lower_bound_ok_def
        upper_bound_ok_def active_ok_def bound_of_def ayse_def lower_def lower_char_def)
qed

text \<open>
  C2 as stated fails for a present but empty city: the customer of Ankara is returned
  although her city is not the empty string.
\<close>

theorem filter_customers_empty_city_counterexample:
  "well_typed_criteria [(''city'', PStr '''')]
   \<and> filter_customers [customer_to_dict ayse] [(''city'', PStr '''')] = Inr [ayse]
   \<and> \<not> satisfies_as_claimed ayse [(''city'', PStr '''')]"
  by (simp add: well_typed_criteria_def well_typed_bound_def numeric_keys_def
      filter_customers_def customer_round_trip matches_criteria_empty_city
      satisfies_as_claimed_def city_ok_as_claimed_def ayse_def lower_def)

lemma matches_criteria_null: "matches_criteria c [(k, PNone)] = Inr True"
  by (simp add: matches_criteria_def city_rejects_def below_rejects_def above_rejects_def
      active_rejects_def)

lemma matches_criteria_false:
  "matches_criteria c [(''is_active'', PBool False)] = Inr (\<not> is_active c)"
  by (simp add: matches_criteria_def city_rejects_def below_rejects_def above_rejects_def
      active_rejects_def)

lemma matches_criteria_zero: "matches_criteria c [(''max_age'', PInt 0)] = Inr (age c \<le> 0)"
  by (auto simp: matches_criteria_def city_rejects_def below_rejects_def above_rejects_def
      active_rejects_def)

lemma filter_loop_matched:
  "filter_loop cs criteria acc = Inr result \<Longrightarrow> c \<in> set result \<Longrightarrow>
   c \<in> set acc \<or> matches_criteria c criteria = Inr True"
proof (induction cs arbitrary: acc)
  case Nil
  then show ?case by simp
next
  case (Cons d cs)
  from Cons.prems(1) obtain m where m: "matches_criteria d criteria = Inr m"
    and r: "filter_loop cs criteria (if m then acc @ [d] else acc) = Inr result"
    by (auto simp: bindE_eq_Inr)
  from Cons.IH [OF r Cons.prems(2)] m show ?case
    by (auto split: if_splits)
qed

lemma matches_criteria_city_immaterial:
  assumes "well_typed_criteria criteria" and "map_of criteria ''city'' = Some (PStr [])"
  shows "matches_criteria c criteria = Inr (other_bounds_ok c criteria)"
  using assms(2) by (simp add: matches_criteria_wt [OF assms(1)] satisfies_def city_ok_def)

text \<open>
  C10. A city criterion that is the empty string is no constraint: the filter returns
  the whole population, whatever the cities of the customers, and beside other criteria
  it returns exactly the customers within the other bounds. A numeric bound or an
  \<open>is_active\<close> value that is present and not \<open>None\<close> is enforced, also the bound \<open>0\<close> and
  the value \<open>False\<close>: the filter returns no customer who violates one, with the bound
  \<open>max_age = 0\<close> it returns exactly the customers of age 0 or less, and with
  \<open>is_active = False\<close> exactly the inactive customers. Only when it is \<open>None\<close> or
  absent is such a criterion skipped, and the whole population returned.
\<close>

theorem empty_city_is_no_constraint:
  assumes "get_all customer_from_dict customer_file = Inr population"
  shows "filter_customers customer_file [(''city'', PStr '''')] = Inr population
   \<and> (well_typed_criteria criteria \<and> map_of criteria ''city'' = Some (PStr '''') \<longrightarrow>
        filter_customers customer_file criteria
          = Inr (filter (\<lambda>c. other_bounds_ok c criteria) population))
   \<and> (filter_customers customer_file criteria' = Inr result \<longrightarrow>
        (\<forall>c \<in> set result. other_bounds_ok c criteria'))
   \<and> filter_customers customer_file [(''max_age'', PInt 0)]
        = Inr (filter (\<lambda>c. age c \<le> 0) population)
   \<and> filter_customers customer_file [(''is_active'', PBool False)]
        = Inr (filter (\<lambda>c. \<not> is_active c) population)
   \<and> filter_customers customer_file [(k, PNone)] = Inr population
   \<and> filter_customers customer_file [] = Inr population"
proof (intro conjI impI ballI)
  show "filter_customers customer_file [(''city'', PStr '''')] = Inr population"
    using assms
    by (simp add: filter_customers_def filter_loop_filter [where P = "\<lambda>c. True"]
        matches_criteria_empty_city)
  show "filter_customers customer_file criteria
          = Inr (filter (\<lambda>c. other_bounds_ok c criteria) population)"
    if "well_typed_criteria criteria \<and> map_of criteria ''city'' = Some (PStr '''')"
    using assms that
    by (simp add: filter_customers_def filter_loop_filter matches_criteria_city_immaterial)
  show "other_bounds_ok c criteria'"
    if "filter_customers customer_file criteria' = Inr result" and "c \<in> set result" for c
  proof -
    from that(1) assms have "filter_loop population criteria' [] = Inr result"
      by (simp add: filter_customers_def)
    from filter_loop_matched [OF this that(2)] show ?thesis
      by (simp add: matched_other_bounds_ok)
  qed
  show "filter_customers customer_file [(''max_age'', PInt 0)]
        = Inr (filter (\<lambda>c. age c \<le> 0) population)"
    using assms by (simp add: filter_customers_def filter_loop_filter matches_criteria_zero)
  show "filter_customers customer_file [(''is_active'', PBool False)]
        = Inr (filter (\<lambda>c. \<not> is_active c) population)"
    using assms by (simp add: filter_customers_def filter_loop_filter matches_criteria_false)
  show "filter_customers customer_file [(k, PNone)] = Inr population"
    using assms
    by (simp add: filter_customers_def filter_loop_filter [where P = "\<lambda>c. True"]
        matches_criteria_null)
  show "filter_customers customer_file [] = Inr population"
    using assms
    by (simp add: filter_customers_def filter_loop_filter [where P = "\<lambda>c. True"]
        matches_criteria_empty)
qed

theorem empty_city_is_no_constraint_witness:
  "get_all customer_from_dict (customers_json office) = Inr [ayse, can, zeynep]
   \<and> filter_customers (customers_json office) [(''city'', PStr '''')]
       = Inr [ayse, can, zeynep]
   \<and> well_typed_criteria [(''city'', PStr ''''), (''min_age'', PInt 30)]
   \<and> filter_customers (customers_json office) [(''city'', PStr ''''), (''min_age'', PInt 30)]
       = Inr [ayse, zeynep]
   \<and> other_bounds_ok ayse [(''city'', PStr ''''), (''min_age'', PInt 30)]
   \<and> other_bounds_ok zeynep [(''city'', PStr ''''), (''min_age'', PInt 30)]
   \<and> filter_customers (customers_json office) [(''max_age'', PInt 0)] = Inr []
   \<and> filter_customers (customers_json office) [(''is_active'', PBool False)] = Inr [zeynep]
   \<and> filter_customers (customers_json office) [(''is_active'', PNone)]
       = Inr [ayse, can, zeynep]"
proof -
  let ?crit = "[(''city'', PStr ''''), (''min_age'', PInt 30)]"
  have pop: "get_all customer_from_dict (customers_json office) = Inr [ayse, can, zeynep]"
    by (simp add: office_def customer_round_trip)
  note t = empty_city_is_no_constraint [OF pop, where criteria = ?crit and criteria' = ?crit
      and result = "[ayse, zeynep]" and k = "''is_active''"]
  have wt: "well_typed_criteria ?crit \<and> map_of ?crit ''city'' = Some (PStr '''')"
    by (simp add: well_typed_criteria_def well_typed_bound_def numeric_keys_def)
  have f: "filter (\<lambda>c. other_bounds_ok c ?crit) [ayse, can, zeynep] = [ayse, zeynep]"
    "filter (\<lambda>c. age c \<le> 0) [ayse, can, zeynep] = []"
    "filter (\<lambda>c. \<not> is_active c) [ayse, can, zeynep] = [zeynep]"
    by (simp_all add: other_bounds_ok_def lower_bound_ok_def upper_bound_ok_def active_ok_def
        bound_of_def ayse_def can_def zeynep_def)
  have sel: "filter_customers (customers_json office) ?crit = Inr [ayse, zeynep]"
    using t [THEN conjunct2, THEN conjunct1, THEN mp, OF wt] by (simp only: f)
  have within: "other_bounds_ok ayse ?crit" "other_bounds_ok zeynep ?crit"
    using t [THEN conjunct2, THEN conjunct2, THEN conjunct1, THEN mp, OF sel]
    by (simp_all only: list.set ball_simps insert_iff simp_thms)
  from t have rest: "filter_customers (customers_json office) [(''city'', PStr '''')]
       = Inr [ayse, can, zeynep]"
    "filter_customers (customers_json office) [(''max_age'', PInt 0)]
       = Inr (filter (\<lambda>c. age c \<le> 0) [ayse, can, zeynep])"
    "filter_customers (customers_json office) [(''is_active'', PBool False)]
       = Inr (filter (\<lambda>c. \<not> is_active c) [ayse, can, zeynep])"
    "filter_customers (customers_json office) [(''is_active'', PNone)]
       = Inr [ayse, can, zeynep]"
    by blast+
  from pop wt sel within rest [unfolded f] show ?thesis
    by blast
qed

subsection \<open>Serialisation\<close>

lemma length_pad [simp]: "length (pad k n) = k"
  by (induction k arbitrary: n) auto

lemma digit_val_digit_char: "d < 10 \<Longrightarrow> digit_val (digit_char d) = Some d"
proof -
  assume "d < 10"
  then have "d \<in> {0, 1, 2, 3, 4, 5, 6, 7, 8, 9}" by auto
  then show ?thesis by (auto simp: digit_val_def digit_char_def)
qed

lemma digits_val_snoc:
  "digits_val (s @ [c]) =
     (case (digits_val s, digit_val c) of (Some a, Some d) \<Rightarrow> Some (10 * a + d) | _ \<Rightarrow> None)"
  by (simp add: digits_val_def)

lemma digits_val_Nil [simp]: "digits_val [] = Some 0"
  by (simp add: digits_val_def)

lemma digits_val_pad: "n < 10 ^ k \<Longrightarrow> digits_val (pad k n) = Some n"
proof (induction k arbitrary: n)
  case 0
  then show ?case by simp
next
  case (Suc k)
  then have "n div 10 < 10 ^ k" by (simp add: less_mult_imp_div_less mult.commute)
  then show ?case using Suc.IH [of "n div 10"]
    by (simp add: digits_val_snoc digit_val_digit_char)
qed

lemma iso_round_trip:
  assumes "valid_datetime d"
  shows "fromisoformat (isoformat d) = Inr d"
proof -
  have b: "year d < 10 ^ 4" "month d < 10 ^ 2" "day d < 10 ^ 2" "hour d < 10 ^ 2"
    "minute d < 10 ^ 2" "second d < 10 ^ 2" "microsecond d < 10 ^ 6"
    using assms by (auto simp: valid_datetime_def days_in_month_def split: if_splits)
  note p = b [THEN digits_val_pad]
  have "fromisoformat (isoformat d) =
      (let d' = \<lparr>year = year d, month = month d, day = day d, hour = hour d,
                  minute = minute d, second = second d, microsecond = microsecond d\<rparr>
       in if valid_datetime d' then Inr d' else Inl InvalidIsoFormat)"
    by (simp add: fromisoformat_def isoformat_def nth_append p Let_def)
  moreover have "\<lparr>year = year d, month = month d, day = day d, hour = hour d,
                  minute = minute d, second = second d, microsecond = microsecond d\<rparr> = d"
    by (cases d) simp
  ultimately show ?thesis
    using assms by (simp add: Let_def)
qed

lemma fromisoformat_valid: "fromisoformat s = Inr d \<Longrightarrow> valid_datetime d"
  by (auto simp: fromisoformat_def Let_def split: if_splits option.splits)

lemma as_stats_map [simp]: "as_stats (map (\<lambda>(k, v). (k, PInt v)) sts) = Inr sts"
  by (induction sts) (auto simp: as_int_def)

lemma campaign_round_trip:
  "valid_datetime (created_at c) \<Longrightarrow> campaign_from_dict now (campaign_to_dict c) = Inr c"
  by (simp add: campaign_from_dict_def campaign_to_dict_def get_item_def as_str_def as_dict_def
      iso_round_trip)

lemma campaign_from_dict_valid:
  "campaign_from_dict now data = Inr c \<Longrightarrow> valid_datetime now \<Longrightarrow>
   valid_datetime (created_at c)"
  by (auto simp: campaign_from_dict_def bindE_def split: sum.splits option.splits pyval.splits
      dest: fromisoformat_valid)

lemma valid_leap_day: "valid_datetime leap_day"
  by (simp add: valid_datetime_def leap_day_def days_in_month_def is_leap_def)

lemma strip_Nil [simp]: "strip [] = []"
  by (simp add: strip_def)

text \<open>
  C9. Deserialising the serialised form of a customer, and of a campaign, gives back
  the entity, with every field: the timestamp travels as its ISO-8601 string, the
  statistics as a nested dictionary, the criteria as they are.
\<close>

theorem serialize_round_trip:
  "customer_from_dict (customer_to_dict c) = Inr c
   \<and> (valid_datetime (created_at k) \<longrightarrow> campaign_from_dict now (campaign_to_dict k) = Inr k)
   \<and> map_of (campaign_to_dict k) ''created_at'' = Some (PStr (isoformat (created_at k)))
   \<and> map_of (campaign_to_dict k) ''stats'' = Some (PDict (map (\<lambda>(n, v). (n, PInt v)) (stats k)))
   \<and> map_of (campaign_to_dict k) ''target_segment_criteria''
       = Some (PDict (target_segment_criteria k))"
  by (simp add: customer_round_trip campaign_round_trip) (simp add: campaign_to_dict_def)

theorem serialize_round_trip_witness:
  "valid_datetime (created_at ankara_sale)
   \<and> customer_from_dict (customer_to_dict ayse) = Inr ayse
   \<and> campaign_from_dict \<lparr>year = 2025, month = 1, day = 1, hour = 0, minute = 0, second = 0,
                          microsecond = 0\<rparr> (campaign_to_dict ankara_sale) = Inr ankara_sale
   \<and> map_of (campaign_to_dict ankara_sale) ''created_at''
       = Some (PStr ''2024-02-29T13:05:09.000123'')"
proof -
  have v: "valid_datetime (created_at ankara_sale)"
    by (simp add: ankara_sale_def valid_leap_day)
  have i: "isoformat (created_at ankara_sale) = ''2024-02-29T13:05:09.000123''"
    by code_simp
  show ?thesis
    using serialize_round_trip [of ayse ankara_sale
        "\<lparr>year = 2025, month = 1, day = 1, hour = 0, minute = 0, second = 0, microsecond = 0\<rparr>"]
      v i
    by simp
qed

subsection \<open>Campaign creation\<close>

lemma campaign_to_dict_id [simp]: "map_of (campaign_to_dict c) ''id'' = Some (PStr (campaign_id c))"
  by (simp add: campaign_to_dict_def)





subsection \<open>Launching a campaign\<close>

lemma send_loop_eq:
  "send_loop send c cs (a, b, s, out) =
     (a + successes (outcomes send s (map (message_for c) cs)),
      b + failures (outcomes send s (map (message_for c) cs)),
      after_sending send s (map (message_for c) cs),
      out @ map (message_for c) cs)"
proof (induction cs arbitrary: a b s out)
  case Nil
  then show ?case by (simp add: successes_def failures_def)
next
  case (Cons x xs)
  then show ?case
    by (cases "send s (message_for c x)")
      (simp add: successes_def failures_def message_for_def Let_def)
qed

lemma successes_failures: "successes bs + failures bs = int (length bs)"
  by (induction bs) (auto simp: successes_def failures_def)

lemma length_outcomes [simp]: "length (outcomes send s ms) = length ms"
  by (induction ms arbitrary: s) auto

lemma outcomes_mock: "outcomes mock_send s ms = replicate (length ms) True"
  by (induction ms arbitrary: s) (auto simp: mock_send_def)

lemma campaign_from_dict_id:
  "campaign_from_dict now item = Inr c \<Longrightarrow> map_of item ''id'' = Some (PStr cid) \<Longrightarrow>
   campaign_id c = cid"
  unfolding campaign_from_dict_def bindE_eq_Inr
  by (auto simp: get_item_def as_str_def)

lemma get_by_id_campaign_id:
  "get_by_id (campaign_from_dict now) raw cid = Inr (Some c) \<Longrightarrow> campaign_id c = cid"
  by (induction raw) (auto simp: bindE_def split: if_splits sum.splits dest: campaign_from_dict_id)

lemma get_by_id_created_valid:
  "get_by_id (campaign_from_dict now) raw cid = Inr (Some c) \<Longrightarrow> valid_datetime now \<Longrightarrow>
   valid_datetime (created_at c)"
  by (induction raw) (auto simp: bindE_def split: if_splits sum.splits dest: campaign_from_dict_valid)

lemma get_by_id_update:
  "get_by_id fd raw cid = Inr (Some c) \<Longrightarrow>
   map_of (td c') ''id'' = Some (PStr cid) \<Longrightarrow> fd' (td c') = Inr c' \<Longrightarrow>
   get_by_id fd' (fst (update td raw cid c')) cid = Inr (Some c')"
  by (induction raw) (auto simp: split_beta split: if_splits)

lemma launched_simps [simp]:
  "campaign_id (launched c n) = campaign_id c" "status (launched c n) = ''Sent''"
  "created_at (launched c n) = created_at c" "title (launched c n) = title c"
  "stats (launched c n) = AList.update ''sent'' n (stats c)"
  by (simp_all add: launched_def)

lemma map_of_update_sent [simp]: "map_of (AList.update k v al) k = Some v"
  by (simp add: update_conv')

lemma filter_customers_satisfies:
  "well_typed_criteria criteria \<Longrightarrow> get_all customer_from_dict customer_file = Inr population \<Longrightarrow>
   filter_customers customer_file criteria = Inr (filter (\<lambda>c. satisfies c criteria) population)"
  by (simp add: filter_customers_def filter_loop_filter matches_criteria_wt)

lemma office_found:
  "get_by_id (campaign_from_dict now) (campaigns_json office) ''k-1'' = Inr (Some ankara_sale)"
proof -
  have "valid_datetime (created_at ankara_sale)"
    by (simp add: ankara_sale_def valid_leap_day)
  then have "campaign_from_dict now (campaign_to_dict ankara_sale) = Inr ankara_sale"
    by (rule campaign_round_trip)
  moreover have "campaign_id ankara_sale = ''k-1''"
    by (simp add: ankara_sale_def)
  ultimately show ?thesis
    by (simp add: office_def)
qed

lemma office_audience:
  "filter_customers (customers_json office) (target_segment_criteria ankara_sale)
     = Inr [ayse, zeynep]"
proof -
  have wt: "well_typed_criteria [(''city'', PStr ''Ankara'')]"
    by (simp add: well_typed_criteria_def well_typed_bound_def numeric_keys_def)
  have pop: "get_all customer_from_dict (customers_json office) = Inr [ayse, can, zeynep]"
    by (simp add: office_def customer_round_trip)
  show ?thesis
    using filter_customers_satisfies [OF wt pop]
    by (simp add: ankara_sale_def satisfies_def city_ok_def other_bounds_ok_def
        lower_bound_ok_def upper_bound_ok_def active_ok_def bound_of_def ayse_def can_def
        zeynep_def lower_def lower_char_def)
qed

lemma office_messages:
  "map (message_for ankara_sale) [ayse, zeynep] =
     [(''ayse@example.com'', ''Sale'', ''Hello Ayse from Ankara!''),
      (''zeynep@example.com'', ''Sale'', ''Hello Zeynep from ANKARA!'')]"
  by code_simp

lemma office_delivered:
  "delivered flaky_smtp True office ankara_sale [ayse, zeynep] = [True, False]"
  using office_messages by (simp add: delivered_def create_provider_def flaky_smtp_def)

lemma launch_success:
  assumes found: "get_by_id (campaign_from_dict now) (campaigns_json w) cid = Inr (Some c)"
    and draft: "status c \<noteq> ''Sent''"
    and aud: "filter_customers (customers_json w) (target_segment_criteria c) = Inr audience"
    and ne: "audience \<noteq> []"
  shows "launch_campaign smtp now w cid use_real_email =
     (Inr [(''success'', PBool True),
           (''message'', PStr ''Campaign launched successfully''),
           (''emails_sent'', PInt (successes (delivered smtp use_real_email w c audience))),
           (''emails_failed'', PInt (failures (delivered smtp use_real_email w c audience))),
           (''target_audience_size'', PInt (int (length audience))),
           (''campaign_id'', PStr cid)],
      w\<lparr>campaigns_json := fst (update campaign_to_dict (campaigns_json w) cid
            (launched c (successes (delivered smtp use_real_email w c audience)))),
        mail_system := after_sending (create_provider smtp use_real_email) (mail_system w)
            (map (message_for c) audience),
        outbox := outbox w @ map (message_for c) audience\<rparr>)"
proof -
  have id: "campaign_id c = cid"
    using found by (rule get_by_id_campaign_id)
  show ?thesis
    using draft ne
    by (simp add: launch_campaign_def found aud send_loop_eq Let_def split_beta id launched_def
        delivered_def)
qed

lemma launch_persisted:
  assumes found: "get_by_id (campaign_from_dict now) (campaigns_json w) cid = Inr (Some c)"
    and now: "valid_datetime now"
  shows "get_by_id (campaign_from_dict later)
           (fst (update campaign_to_dict (campaigns_json w) cid (launched c n))) cid
         = Inr (Some (launched c n))"
proof -
  have id: "campaign_id c = cid"
    using found by (rule get_by_id_campaign_id)
  have v: "valid_datetime (created_at (launched c n))"
    using get_by_id_created_valid [OF found now] by simp
  show ?thesis
    by (rule get_by_id_update [OF found]) (simp_all add: id campaign_round_trip [OF v])
qed

lemma launch_empty:
  assumes found: "get_by_id (campaign_from_dict now) (campaigns_json w) cid = Inr (Some c)"
    and draft: "status c \<noteq> ''Sent''"
    and aud: "filter_customers (customers_json w) (target_segment_criteria c) = Inr []"
  shows "launch_campaign smtp now w cid use_real_email =
     (Inr [(''success'', PBool False),
           (''message'', PStr ''No customers match target criteria''),
           (''emails_sent'', PInt 0),
           (''target_audience_size'', PInt 0)], w)"
  using draft by (simp add: launch_campaign_def found aud)

lemma launch_not_found:
  "get_by_id (campaign_from_dict now) (campaigns_json w) cid = Inr None \<Longrightarrow>
   launch_campaign smtp now w cid use_real_email = (Inl NotFound, w)"
  by (simp add: launch_campaign_def)

lemma launch_already_sent:
  "get_by_id (campaign_from_dict now) (campaigns_json w) cid = Inr (Some c) \<Longrightarrow>
   status c = ''Sent'' \<Longrightarrow>
   launch_campaign smtp now w cid use_real_email = (Inl AlreadySent, w)"
  by (simp add: launch_campaign_def)

lemma launch_succeeded_cases:
  assumes "launch_campaign smtp now w cid use_real_email = (Inr r, w')"
    and "map_of r ''success'' = Some (PBool True)"
  obtains c audience where
    "get_by_id (campaign_from_dict now) (campaigns_json w) cid = Inr (Some c)"
    "status c \<noteq> ''Sent''"
    "filter_customers (customers_json w) (target_segment_criteria c) = Inr audience"
    "audience \<noteq> []"
  using assms
  by (auto simp: launch_campaign_def split: sum.splits option.splits if_splits)

lemma relaunch_already_sent:
  assumes first: "launch_campaign smtp now w cid use_real_email = (Inr r, w')"
    and ok: "map_of r ''success'' = Some (PBool True)"
    and now: "valid_datetime now"
  shows "launch_campaign smtp' later w' cid use_real_email' = (Inl AlreadySent, w')"
proof -
  from first ok obtain c audience where
    found: "get_by_id (campaign_from_dict now) (campaigns_json w) cid = Inr (Some c)"
    and draft: "status c \<noteq> ''Sent''"
    and aud: "filter_customers (customers_json w) (target_segment_criteria c) = Inr audience"
    and ne: "audience \<noteq> []"
    by (rule launch_succeeded_cases)
  define n where "n = successes (delivered smtp use_real_email w c audience)"
  have w': "campaigns_json w' = fst (update campaign_to_dict (campaigns_json w) cid (launched c n))"
    using first launch_success [OF found draft aud ne, of smtp use_real_email]
    by (auto simp: n_def)
  have "get_by_id (campaign_from_dict later) (campaigns_json w') cid = Inr (Some (launched c n))"
    unfolding w' by (rule launch_persisted [OF found now])
  then show ?thesis
    by (rule launch_already_sent) simp
qed

text \<open>
  C1. A launch of a stored campaign in status Draft whose criteria match a non-empty
  audience calls \<open>send\<close> once for every matched customer, in the order of the filter
  result, with the personalised mail; it stores the campaign with status Sent and with
  \<open>stats['sent']\<close> the number of delivered mails, and returns success with the numbers
  of delivered and failed mails, which add up to the size of the audience, and that
  size. With the mock provider every mail is delivered.
\<close>

theorem launch_campaign_delivers:
  assumes "valid_datetime now"
    and "get_by_id (campaign_from_dict now) (campaigns_json w) cid = Inr (Some c)"
    and "status c = ''Draft''"
    and "filter_customers (customers_json w) (target_segment_criteria c) = Inr audience"
    and "audience \<noteq> []"
  shows "launch_campaign smtp now w cid use_real_email =
     (Inr [(''success'', PBool True),
           (''message'', PStr ''Campaign launched successfully''),
           (''emails_sent'', PInt (successes (delivered smtp use_real_email w c audience))),
           (''emails_failed'', PInt (failures (delivered smtp use_real_email w c audience))),
           (''target_audience_size'', PInt (int (length audience))),
           (''campaign_id'', PStr cid)],
      w\<lparr>campaigns_json := fst (update campaign_to_dict (campaigns_json w) cid
            (launched c (successes (delivered smtp use_real_email w c audience)))),
        mail_system := after_sending (create_provider smtp use_real_email) (mail_system w)
            (map (message_for c) audience),
        outbox := outbox w @ map (message_for c) audience\<rparr>)
   \<and> get_by_id (campaign_from_dict later)
         (fst (update campaign_to_dict (campaigns_json w) cid
            (launched c (successes (delivered smtp use_real_email w c audience))))) cid
       = Inr (Some (launched c (successes (delivered smtp use_real_email w c audience))))
   \<and> status (launched c (successes (delivered smtp use_real_email w c audience))) = ''Sent''
   \<and> map_of (stats (launched c (successes (delivered smtp use_real_email w c audience)))) ''sent''
       = Some (successes (delivered smtp use_real_email w c audience))
   \<and> length (delivered smtp use_real_email w c audience) = length audience
   \<and> successes (delivered smtp use_real_email w c audience)
       + failures (delivered smtp use_real_email w c audience) = int (length audience)
   \<and> (\<not> use_real_email \<longrightarrow>
        successes (delivered smtp use_real_email w c audience) = int (length audience) \<and>
        failures (delivered smtp use_real_email w c audience) = 0)"
proof -
  have draft: "status c \<noteq> ''Sent''"
    using assms(3) by simp
  have "\<not> use_real_email \<Longrightarrow>
        delivered smtp use_real_email w c audience = replicate (length audience) True"
    by (simp add: delivered_def create_provider_def outcomes_mock)
  then have mock: "\<not> use_real_email \<Longrightarrow>
        successes (delivered smtp use_real_email w c audience) = int (length audience) \<and>
        failures (delivered smtp use_real_email w c audience) = 0"
    by (simp add: successes_def failures_def)
  have total: "successes (delivered smtp use_real_email w c audience)
       + failures (delivered smtp use_real_email w c audience) = int (length audience)"
    by (simp add: successes_failures delivered_def)
  show ?thesis
    using launch_success [OF assms(2) draft assms(4) assms(5), of smtp use_real_email]
      launch_persisted [OF assms(2) assms(1)] mock total
    by (simp add: delivered_def)
qed

theorem launch_campaign_delivers_witness:
  "valid_datetime leap_day
   \<and> get_by_id (campaign_from_dict leap_day) (campaigns_json office) ''k-1'' = Inr (Some ankara_sale)
   \<and> status ankara_sale = ''Draft''
   \<and> filter_customers (customers_json office) (target_segment_criteria ankara_sale)
       = Inr [ayse, zeynep]
   \<and> fst (launch_campaign flaky_smtp leap_day office ''k-1'' True) =
       Inr [(''success'', PBool True),
            (''message'', PStr ''Campaign launched successfully''),
            (''emails_sent'', PInt 1),
            (''emails_failed'', PInt 1),
            (''target_audience_size'', PInt 2),
            (''campaign_id'', PStr ''k-1'')]
   \<and> outbox (snd (launch_campaign flaky_smtp leap_day office ''k-1'' True)) =
       [(''ayse@example.com'', ''Sale'', ''Hello Ayse from Ankara!''),
        (''zeynep@example.com'', ''Sale'', ''Hello Zeynep from ANKARA!'')]
   \<and> get_by_id (campaign_from_dict leap_day)
         (campaigns_json (snd (launch_campaign flaky_smtp leap_day office ''k-1'' True))) ''k-1''
       = Inr (Some (ankara_sale\<lparr>stats := [(''sent'', 1), (''opened'', 0), (''clicked'', 0)],
                                status := ''Sent''\<rparr>))"
proof -
  have d: "status ankara_sale = ''Draft''"
    by (simp add: ankara_sale_def)
  have ne: "[ayse, zeynep] \<noteq> []"
    by simp
  have l: "launched ankara_sale 1
             = ankara_sale\<lparr>stats := [(''sent'', 1), (''opened'', 0), (''clicked'', 0)],
                            status := ''Sent''\<rparr>"
    by (simp add: launched_def ankara_sale_def)
  have o: "outbox office = []"
    by (simp add: office_def)
  show ?thesis
    using launch_campaign_delivers [OF valid_leap_day office_found d office_audience ne,
        where smtp = flaky_smtp and use_real_email = True and later = leap_day]
      valid_leap_day office_found [of leap_day] d office_audience office_messages
    by (simp add: office_delivered successes_def failures_def l o)
qed

text \<open>
  C3. A launch raises NotFound when no stored campaign has the id, and AlreadySent when
  the campaign is in status Sent; both leave the world as it is. After a launch that
  succeeded, every further launch of the same id raises AlreadySent and leaves the world
  of the first launch unchanged.
\<close>

theorem launch_campaign_refuses:
  "(get_by_id (campaign_from_dict now) (campaigns_json w) cid = Inr None \<longrightarrow>
      launch_campaign smtp now w cid use_real_email = (Inl NotFound, w))
   \<and> (get_by_id (campaign_from_dict now) (campaigns_json w) cid = Inr (Some c) \<and>
      status c = ''Sent'' \<longrightarrow>
      launch_campaign smtp now w cid use_real_email = (Inl AlreadySent, w))
   \<and> (valid_datetime now \<and>
      launch_campaign smtp now w cid use_real_email = (Inr r, w') \<and>
      map_of r ''success'' = Some (PBool True) \<longrightarrow>
      launch_campaign smtp' later w' cid use_real_email' = (Inl AlreadySent, w'))"
proof (intro conjI impI)
  assume "get_by_id (campaign_from_dict now) (campaigns_json w) cid = Inr None"
  then show "launch_campaign smtp now w cid use_real_email = (Inl NotFound, w)"
    by (rule launch_not_found)
next
  assume "get_by_id (campaign_from_dict now) (campaigns_json w) cid = Inr (Some c) \<and>
      status c = ''Sent''"
  then show "launch_campaign smtp now w cid use_real_email = (Inl AlreadySent, w)"
    by (simp add: launch_already_sent)
next
  assume "valid_datetime now \<and>
      launch_campaign smtp now w cid use_real_email = (Inr r, w') \<and>
      map_of r ''success'' = Some (PBool True)"
  then show "launch_campaign smtp' later w' cid use_real_email' = (Inl AlreadySent, w')"
    by (blast intro: relaunch_already_sent)
qed

theorem launch_campaign_refuses_witness:
  "get_by_id (campaign_from_dict leap_day) (campaigns_json office) ''k-9'' = Inr None
   \<and> launch_campaign flaky_smtp leap_day office ''k-9'' True = (Inl NotFound, office)
   \<and> valid_datetime leap_day
   \<and> map_of (projr (fst (launch_campaign flaky_smtp leap_day office ''k-1'' True))) ''success''
       = Some (PBool True)
   \<and> launch_campaign mock_send leap_day
        (snd (launch_campaign flaky_smtp leap_day office ''k-1'' True)) ''k-1'' False
       = (Inl AlreadySent, snd (launch_campaign flaky_smtp leap_day office ''k-1'' True))"
proof -
  have nf: "get_by_id (campaign_from_dict leap_day) (campaigns_json office) ''k-9'' = Inr None"
    by (simp add: office_def ankara_sale_def)
  have d: "status ankara_sale \<noteq> ''Sent''"
    by (simp add: ankara_sale_def)
  have ne: "[ayse, zeynep] \<noteq> []"
    by simp
  obtain r w' where first: "launch_campaign flaky_smtp leap_day office ''k-1'' True = (Inr r, w')"
    and ok: "map_of r ''success'' = Some (PBool True)"
    using launch_success [OF office_found d office_audience ne,
        where now = leap_day and smtp = flaky_smtp and use_real_email = True]
    by simp
  show ?thesis
    using launch_campaign_refuses [where now = leap_day and w = office and cid = "''k-9''"
        and smtp = flaky_smtp and use_real_email = True]
      launch_campaign_refuses [where now = leap_day and w = office and cid = "''k-1''"
        and smtp = flaky_smtp and use_real_email = True and r = r and w' = w'
        and smtp' = mock_send and later = leap_day and use_real_email' = False]
      nf valid_leap_day first ok
    by simp
qed

text \<open>
  C4. A launch of a stored Draft campaign whose criteria match no customer returns the
  failure result, with no mail counted and an audience of size 0, and leaves the world
  as it is: no call of \<open>send\<close>, the campaign file untouched, the campaign still Draft.
\<close>

theorem launch_campaign_empty_audience:
  assumes "get_by_id (campaign_from_dict now) (campaigns_json w) cid = Inr (Some c)"
    and "status c = ''Draft''"
    and "filter_customers (customers_json w) (target_segment_criteria c) = Inr []"
  shows "launch_campaign smtp now w cid use_real_email =
     (Inr [(''success'', PBool False),
           (''message'', PStr ''No customers match target criteria''),
           (''emails_sent'', PInt 0),
           (''target_audience_size'', PInt 0)], w)"
proof -
  have "status c \<noteq> ''Sent''"
    using assms(2) by simp
  then show ?thesis
    by (rule launch_empty [OF assms(1) _ assms(3)])
qed

theorem launch_campaign_empty_audience_witness:
  "get_by_id (campaign_from_dict leap_day) (campaigns_json office) ''k-1'' = Inr (Some ankara_sale)
   \<and> status ankara_sale = ''Draft''
   \<and> filter_customers (customers_json (office\<lparr>customers_json := [customer_to_dict can]\<rparr>))
        (target_segment_criteria ankara_sale) = Inr []
   \<and> launch_campaign flaky_smtp leap_day (office\<lparr>customers_json := [customer_to_dict can]\<rparr>)
        ''k-1'' True =
       (Inr [(''success'', PBool False),
             (''message'', PStr ''No customers match target criteria''),
             (''emails_sent'', PInt 0),
             (''target_audience_size'', PInt 0)],
        office\<lparr>customers_json := [customer_to_dict can]\<rparr>)"
proof -
  have d: "status ankara_sale = ''Draft''"
    by (simp add: ankara_sale_def)
  have f: "get_by_id (campaign_from_dict leap_day)
             (campaigns_json (office\<lparr>customers_json := [customer_to_dict can]\<rparr>)) ''k-1''
           = Inr (Some ankara_sale)"
    using office_found [of leap_day] by simp
  have wt: "well_typed_criteria [(''city'', PStr ''Ankara'')]"
    by (simp add: well_typed_criteria_def well_typed_bound_def numeric_keys_def)
  have pop: "get_all customer_from_dict [customer_to_dict can] = Inr [can]"
    by (simp add: customer_round_trip)
  have a: "filter_customers (customers_json (office\<lparr>customers_json := [customer_to_dict can]\<rparr>))
             (target_segment_criteria ankara_sale) = Inr []"
    using filter_customers_satisfies [OF wt pop]
    by (simp add: ankara_sale_def satisfies_def city_ok_def can_def lower_def lower_char_def)
  show ?thesis
    using launch_campaign_empty_audience [OF f d a, where smtp = flaky_smtp
        and use_real_email = True] office_found [of leap_day]
      d a
    by simp
qed

subsection \<open>Statistics and analytics\<close>

lemma round_half_even_nonneg: "0 \<le> x \<Longrightarrow> 0 \<le> round_half_even x"
  by (auto simp: round_half_even_def Let_def)

lemma fl_nonneg: "0 \<le> x \<Longrightarrow> 0 \<le> fl x"
  by (auto simp: fl_def Let_def intro!: mult_nonneg_nonneg round_half_even_nonneg
      divide_nonneg_nonneg)

lemma fl_0 [simp]: "fl 0 = 0"
  by (simp add: fl_def)

lemma fl_100: "fl 100 = 100"
  by code_simp

lemma py_float_100: "py_float 100 = 100"
  by code_simp

lemma py_float_0 [simp]: "py_float 0 = 0"
  by (simp add: py_float_def)

lemma rate_unrounded:
  "0 \<le> b \<Longrightarrow> rate a b = Inr (if b = 0 then PInt 0 else PFloat (ratio_100 a b))"
  by (auto simp: rate_def ratio_100_def py_truediv_def py_float_100)

lemma unrounded_percent:
  "py_round_val (if b = 0 then PInt 0 else PFloat (ratio_100 a b)) 2 = percent a b"
  by (simp add: percent_def py_round_val_def)

lemma unrounded_value:
  "float_value (if b = 0 then PInt 0 else PFloat (ratio_100 a b)) = ratio_100 a b"
  by (simp add: ratio_100_def float_value_def)

lemma min_100_round:
  "py_round_val (min_100 x) n = (if x < 100 then PFloat (py_round x n) else PInt 100)"
  by (simp add: min_100_def py_round_val_def)

lemma performance_found:
  assumes found: "get_by_id (campaign_from_dict now) campaign_file cid = Inr (Some c)"
    and nn: "0 \<le> stats_get (stats c) ''sent''" "0 \<le> stats_get (stats c) ''opened''"
      "0 \<le> stats_get (stats c) ''failed''"
  shows "get_campaign_performance now campaign_file cid =
     Inr [(''sent'', PInt (stats_get (stats c) ''sent'')),
          (''opened'', PInt (stats_get (stats c) ''opened'')),
          (''clicked'', PInt (stats_get (stats c) ''clicked'')),
          (''failed'', PInt (stats_get (stats c) ''failed'')),
          (''delivery_rate'', percent (stats_get (stats c) ''sent'')
               (stats_get (stats c) ''sent'' + stats_get (stats c) ''failed'')),
          (''open_rate'', percent (stats_get (stats c) ''opened'') (stats_get (stats c) ''sent'')),
          (''click_rate'', percent (stats_get (stats c) ''clicked'') (stats_get (stats c) ''opened'')),
          (''click_through_rate'',
             percent (stats_get (stats c) ''clicked'') (stats_get (stats c) ''sent'')),
          (''roi_prediction'', PFloat (py_round (fmul (py_float (stats_get (stats c) ''clicked'')) 15) 2)),
          (''engagement_score'', engagement (stats_get (stats c) ''sent'')
               (stats_get (stats c) ''opened'') (stats_get (stats c) ''clicked'')),
          (''campaign_title'', PStr (title c)),
          (''campaign_status'', PStr (status c)),
          (''target_criteria'', PDict (target_segment_criteria c))]"
proof -
  have t: "0 \<le> stats_get (stats c) ''sent'' + stats_get (stats c) ''failed''"
    using nn by simp
  show ?thesis
    by (simp add: get_campaign_performance_def found Let_def rate_unrounded nn t
        unrounded_percent unrounded_value min_100_round engagement_def cong: if_cong)
qed

lemma example_values:
  "percent 100 (100 + 0) = PFloat 100" "percent 40 100 = PFloat 40" "percent 8 40 = PFloat 20"
  "percent 8 100 = PFloat 8" "py_round (fmul (py_float 8) 15) 2 = 120"
  "engagement 100 40 8 = PFloat 56"
  by code_simp+

lemma py_float_nonneg: "0 \<le> n \<Longrightarrow> 0 \<le> py_float n"
  by (simp add: py_float_def fl_nonneg)

lemma py_int_fmul_floor:
  "0 \<le> n \<Longrightarrow> 0 \<le> r \<Longrightarrow> py_int (fmul (py_float n) r) = \<lfloor>fmul (py_float n) r\<rfloor>"
  by (simp add: py_int_def fmul_def fl_nonneg py_float_nonneg)

lemma floor_fmul_nonneg:
  "0 \<le> n \<Longrightarrow> 0 \<le> r \<Longrightarrow> 0 \<le> \<lfloor>fmul (py_float n) r\<rfloor>"
  by (simp add: fmul_def fl_nonneg py_float_nonneg)

lemma stats_get_update:
  "stats_get (AList.update k v sts) k' = (if k' = k then v else stats_get sts k')"
  by (simp add: stats_get_def update_conv')

lemma simulated_simps [simp]:
  "campaign_id (simulated c n k) = campaign_id c" "created_at (simulated c n k) = created_at c"
  "status (simulated c n k) = status c"
  "stats (simulated c n k) = AList.update ''clicked'' k (AList.update ''opened'' n (stats c))"
  by (simp_all add: simulated_def)

lemma simulate_not_found:
  "get_by_id (campaign_from_dict now) campaign_file cid = Inr None \<Longrightarrow>
   simulate_engagement now r1 r2 campaign_file cid = (Inl NotFound, campaign_file)"
  by (simp add: simulate_engagement_def)

lemma simulate_noop:
  "get_by_id (campaign_from_dict now) campaign_file cid = Inr (Some c) \<Longrightarrow> \<not> just_launched c \<Longrightarrow>
   simulate_engagement now r1 r2 campaign_file cid = (Inr c, campaign_file)"
  by (auto simp: simulate_engagement_def just_launched_def)

lemma simulate_triggered:
  assumes found: "get_by_id (campaign_from_dict now) campaign_file cid = Inr (Some c)"
    and trig: "just_launched c"
    and r: "0 \<le> r1" "0 \<le> r2"
  shows "simulate_engagement now r1 r2 campaign_file cid =
     (Inr (simulated c \<lfloor>fmul (py_float (stats_get (stats c) ''sent'')) r1\<rfloor>
             \<lfloor>fmul (py_float \<lfloor>fmul (py_float (stats_get (stats c) ''sent'')) r1\<rfloor>) r2\<rfloor>),
      fst (update campaign_to_dict campaign_file cid
        (simulated c \<lfloor>fmul (py_float (stats_get (stats c) ''sent'')) r1\<rfloor>
             \<lfloor>fmul (py_float \<lfloor>fmul (py_float (stats_get (stats c) ''sent'')) r1\<rfloor>) r2\<rfloor>)))"
proof -
  have s: "0 \<le> stats_get (stats c) ''sent''"
    using trig by (simp add: just_launched_def)
  have o: "py_int (fmul (py_float (stats_get (stats c) ''sent'')) r1)
             = \<lfloor>fmul (py_float (stats_get (stats c) ''sent'')) r1\<rfloor>"
    using s r by (simp add: py_int_fmul_floor)
  have k: "py_int (fmul (py_float \<lfloor>fmul (py_float (stats_get (stats c) ''sent'')) r1\<rfloor>) r2)
             = \<lfloor>fmul (py_float \<lfloor>fmul (py_float (stats_get (stats c) ''sent'')) r1\<rfloor>) r2\<rfloor>"
    by (rule py_int_fmul_floor [OF floor_fmul_nonneg [OF s r(1)] r(2)])
  show ?thesis
    using trig
    by (simp add: simulate_engagement_def found just_launched_def Let_def split_beta o k
        simulated_def)
qed

lemma simulate_persisted:
  assumes found: "get_by_id (campaign_from_dict now) campaign_file cid = Inr (Some c)"
    and now: "valid_datetime now"
  shows "get_by_id (campaign_from_dict later)
           (fst (update campaign_to_dict campaign_file cid (simulated c n k))) cid
         = Inr (Some (simulated c n k))"
proof -
  have id: "campaign_id c = cid"
    using found by (rule get_by_id_campaign_id)
  have v: "valid_datetime (created_at (simulated c n k))"
    using get_by_id_created_valid [OF found now] by simp
  show ?thesis
    by (rule get_by_id_update [OF found]) (simp_all add: id campaign_round_trip [OF v])
qed

lemma simulated_not_just_launched:
  "n \<noteq> 0 \<or> k \<noteq> 0 \<Longrightarrow> \<not> just_launched (simulated c n k)"
  by (auto simp: just_launched_def stats_get_update)




text \<open>
  Rounding to a float never crosses a number of the binary grid that the float lies on.
  Hence a product of a counter below \<open>2 ^ 40\<close> and a drawn rate, cut to an integer,
  is the floor of the exact product with some rate of the interval.
\<close>

lemma two_powi_bitlen_le:
  assumes "0 < (p::int)"
  shows "(2::rat) powi (bitlen p - 1) \<le> of_int p"
proof -
  have b: "1 \<le> bitlen p"
    using assms by (auto simp: bitlen_alt_def)
  have "(2::int) ^ nat (bitlen p - 1) \<le> p"
    using bitlen_bounds [OF assms] by simp
  then have "(of_int ((2::int) ^ nat (bitlen p - 1)) :: rat) \<le> of_int p"
    by (simp only: of_int_le_iff)
  then show ?thesis
    using b by (simp add: power_int_def)
qed

lemma less_two_powi_bitlen:
  assumes "0 < (q::int)"
  shows "(of_int q :: rat) < 2 powi (bitlen q)"
proof -
  have b: "0 \<le> bitlen q"
    by (rule bitlen_nonneg)
  have "q < (2::int) ^ nat (bitlen q)"
    using bitlen_bounds [OF assms] by simp
  then have "(of_int q :: rat) < of_int ((2::int) ^ nat (bitlen q))"
    by (simp only: of_int_less_iff)
  then show ?thesis
    using b by (simp add: power_int_def)
qed

lemma exponent_le:
  assumes "x \<noteq> 0"
  shows "2 powi (exponent x) \<le> \<bar>x\<bar>"
proof -
  obtain p q where pq: "quotient_of \<bar>x\<bar> = (p, q)"
    by (cases "quotient_of \<bar>x\<bar>")
  have q: "0 < q"
    using pq by (rule quotient_of_denom_pos)
  have x: "\<bar>x\<bar> = of_int p / of_int q"
    using pq by (rule quotient_of_div)
  have p: "0 < p"
  proof -
    have "0 < \<bar>x\<bar>" using assms by simp
    then show ?thesis
      using q unfolding x by (simp add: zero_less_divide_iff)
  qed
  let ?k = "bitlen p - bitlen q"
  show ?thesis
  proof (cases "2 powi ?k \<le> \<bar>x\<bar>")
    case True
    then show ?thesis
      by (simp add: exponent_def pq)
  next
    case False
    have "(2::rat) powi (?k - 1) = 2 powi ((bitlen p - 1) - bitlen q)"
      by (rule arg_cong [where f = "\<lambda>n. 2 powi n"]) simp
    also have "\<dots> = 2 powi (bitlen p - 1) / 2 powi (bitlen q)"
      by (rule power_int_diff) simp
    also have "\<dots> \<le> of_int p / 2 powi (bitlen q)"
      using two_powi_bitlen_le [OF p] by (simp add: divide_right_mono)
    also have "\<dots> \<le> of_int p / of_int q"
      using less_two_powi_bitlen [OF q] p q by (simp add: frac_le)
    finally have "(2::rat) powi (?k - 1) \<le> \<bar>x\<bar>"
      by (simp only: x)
    moreover have "exponent x = ?k - 1"
      using False by (simp add: exponent_def pq)
    ultimately show ?thesis
      by simp
  qed
qed

lemma round_half_even_ge: "of_int k \<le> z \<Longrightarrow> k \<le> round_half_even z"
  by (auto simp: round_half_even_def Let_def le_floor_iff intro: order_trans [of _ "\<lfloor>z\<rfloor>"])

lemma round_half_even_le:
  assumes "z \<le> of_int k"
  shows "round_half_even z \<le> k"
proof -
  have f: "\<lfloor>z\<rfloor> \<le> k"
    using assms by (simp add: floor_le_iff)
  show ?thesis
  proof (cases "z - of_int \<lfloor>z\<rfloor> < 1 / 2")
    case True
    then show ?thesis
      using f by (simp add: round_half_even_def Let_def)
  next
    case False
    then have "z \<noteq> of_int k"
      by auto
    with assms have "z < of_int k"
      by simp
    then have "\<lfloor>z\<rfloor> < k"
      by (simp add: floor_less_iff)
    then show ?thesis
      by (auto simp: round_half_even_def Let_def)
  qed
qed

lemma exponent_less:
  assumes "0 < y" and "y < 2 powi n"
  shows "exponent y < n"
proof (rule ccontr)
  assume "\<not> exponent y < n"
  then have "n \<le> exponent y"
    by simp
  then have "(2::rat) powi n \<le> 2 powi (exponent y)"
    by (rule power_int_increasing) simp
  also have "\<dots> \<le> \<bar>y\<bar>"
    using assms(1) by (intro exponent_le) simp
  finally show False
    using assms by simp
qed

lemma grid_point:
  assumes "q + int j \<le> 0"
  shows "(of_int m / 2 ^ j) / 2 powi q = (of_int (m * 2 ^ nat (- q - int j)) :: rat)"
proof -
  have "(2::rat) powi (- q - int j) = 2 ^ nat (- q - int j)"
    using assms by (simp add: power_int_def)
  moreover have "(2::rat) powi (- q - int j) = inverse (2 powi q) / 2 ^ j"
    by (simp add: power_int_diff power_int_minus)
  ultimately show ?thesis
    by (simp add: field_simps)
qed

lemma fl_grid_le:
  assumes y: "0 < y" and le: "y \<le> of_int m / 2 ^ j" and small: "y < 2 powi (53 - int j)"
  shows "fl y \<le> of_int m / 2 ^ j"
proof -
  define q where "q = exponent y - 52"
  have "exponent y < 53 - int j"
    using y small by (rule exponent_less)
  then have q: "q + int j \<le> 0"
    by (simp add: q_def)
  have pos: "(0::rat) < 2 powi q"
    by simp
  have "y / 2 powi q \<le> (of_int m / 2 ^ j) / 2 powi q"
    using le by (rule divide_right_mono) simp
  then have "y / 2 powi q \<le> of_int (m * 2 ^ nat (- q - int j))"
    by (simp only: grid_point [OF q])
  then have "round_half_even (y / 2 powi q) \<le> m * 2 ^ nat (- q - int j)"
    by (rule round_half_even_le)
  then have "(of_int (round_half_even (y / 2 powi q)) :: rat) \<le> of_int (m * 2 ^ nat (- q - int j))"
    by (simp only: of_int_le_iff)
  then have "of_int (round_half_even (y / 2 powi q)) * 2 powi q
               \<le> (of_int (m * 2 ^ nat (- q - int j)) :: rat) * 2 powi q"
    using pos by (simp only: mult_le_cancel_right_pos)
  also have "\<dots> = of_int m / 2 ^ j"
    using grid_point [OF q, of m, symmetric] pos by simp
  finally show ?thesis
    using y by (simp add: fl_def q_def Let_def)
qed

lemma fl_grid_ge:
  assumes y: "0 < y" and ge: "of_int m / 2 ^ j \<le> y" and small: "y < 2 powi (53 - int j)"
  shows "of_int m / 2 ^ j \<le> fl y"
proof -
  define q where "q = exponent y - 52"
  have "exponent y < 53 - int j"
    using y small by (rule exponent_less)
  then have q: "q + int j \<le> 0"
    by (simp add: q_def)
  have pos: "(0::rat) < 2 powi q"
    by simp
  have "(of_int m / 2 ^ j) / 2 powi q \<le> y / 2 powi q"
    using ge by (rule divide_right_mono) simp
  then have "of_int (m * 2 ^ nat (- q - int j)) \<le> y / 2 powi q"
    by (simp only: grid_point [OF q])
  then have "m * 2 ^ nat (- q - int j) \<le> round_half_even (y / 2 powi q)"
    by (rule round_half_even_ge)
  then have "(of_int (m * 2 ^ nat (- q - int j)) :: rat) \<le> of_int (round_half_even (y / 2 powi q))"
    by (simp only: of_int_le_iff)
  then have "(of_int (m * 2 ^ nat (- q - int j)) :: rat) * 2 powi q
               \<le> of_int (round_half_even (y / 2 powi q)) * 2 powi q"
    using pos by (simp only: mult_le_cancel_right_pos)
  moreover have "of_int m / 2 ^ j = (of_int (m * 2 ^ nat (- q - int j)) :: rat) * 2 powi q"
    using grid_point [OF q, of m, symmetric] pos by simp
  ultimately have "(of_int m / 2 ^ j :: rat)
                     \<le> of_int (round_half_even (y / 2 powi q)) * 2 powi q"
    by (simp only:)
  then show ?thesis
    using y by (simp add: fl_def q_def Let_def)
qed

lemma py_float_exact:
  assumes "0 \<le> n" and "n < 2 ^ 53"
  shows "py_float n = of_int n"
proof (cases "n = 0")
  case True
  then show ?thesis by (simp add: py_float_def fl_def)
next
  case False
  with assms have pos: "(0::rat) < of_int n"
    by simp
  have small: "(of_int n :: rat) < 2 powi (53 - int 0)"
    using assms(2) by simp
  have "fl (of_int n) \<le> of_int n / 2 ^ 0"
    by (rule fl_grid_le [OF pos _ small]) simp
  moreover have "of_int n / 2 ^ 0 \<le> fl (of_int n)"
    by (rule fl_grid_ge [OF pos _ small]) simp
  ultimately show ?thesis
    by (simp add: py_float_def)
qed

lemma floor_fmul_exact:
  fixes n a d :: int and r lo :: rat
  assumes n: "0 < n" "n < 2 ^ 40"
    and d: "0 < d" "d \<le> 20" "0 < a" "a \<le> d"
    and lo: "0 < lo" "lo \<le> of_int a / of_int d"
    and r: "lo \<le> r" "r \<le> of_int a / of_int d + 1 / 2 ^ 52"
  shows "\<exists>\<rho>. lo \<le> \<rho> \<and> \<rho> \<le> of_int a / of_int d \<and>
             \<lfloor>fmul (py_float n) r\<rfloor> = \<lfloor>of_int n * \<rho>\<rfloor>"
proof -
  define hi :: rat where "hi = of_int a / of_int d"
  define y where "y = of_int n * r"
  define out where "out = \<lfloor>fl y\<rfloor>"
  have npos: "(0::rat) < of_int n"
    using n(1) by simp
  have n40: "(of_int n :: rat) < 2 ^ 40"
    using n(2) by simp
  have hi1: "hi \<le> 1"
    using d by (simp add: hi_def)
  have rpos: "0 < r"
    using lo(1) r(1) by simp
  have ypos: "0 < y"
    using npos rpos by (simp add: y_def)
  have "y \<le> of_int n * (hi + 1 / 2 ^ 52)"
    using r(2) npos by (simp add: y_def hi_def mult_left_mono)
  also have "\<dots> \<le> of_int n * 2"
    using hi1 npos by (intro mult_left_mono) simp_all
  also have "\<dots> < 2 ^ 40 * 2"
    using n40 by simp
  finally have y41: "y < 2 ^ 41"
    by simp
  have fn: "py_float n = of_int n"
    using n by (intro py_float_exact) simp_all
  have out: "out = \<lfloor>fmul (py_float n) r\<rfloor>"
    by (simp add: out_def y_def fmul_def fn)
  \<comment> \<open>the lower bound\<close>
  define L where "L = \<lfloor>of_int n * lo\<rfloor>"
  have "of_int L \<le> of_int n * lo"
    by (simp add: L_def)
  also have "\<dots> \<le> y"
    using r(1) npos by (simp add: y_def mult_left_mono)
  finally have "of_int L / 2 ^ 0 \<le> y"
    by simp
  moreover have "y < 2 powi (53 - int 0)"
    using y41 by simp
  ultimately have "of_int L / 2 ^ 0 \<le> fl y"
    using ypos by (intro fl_grid_ge) 
  then have lower: "L \<le> out"
    by (simp add: out_def le_floor_iff)
  \<comment> \<open>the upper bound\<close>
  define K where "K = (n * a) div d"
  have "n * a \<le> d * K + (d - 1)"
  proof -
    have "n * a = d * K + (n * a) mod d"
      by (simp add: K_def)
    moreover have "(n * a) mod d < d"
      using d(1) by simp
    ultimately show ?thesis
      by linarith
  qed
  then have "(of_int (n * a) :: rat) \<le> of_int (d * K + (d - 1))"
    by (simp only: of_int_le_iff)
  then have "of_int n * hi \<le> of_int K + (of_int d - 1) / of_int d"
    using d(1) by (simp add: hi_def field_simps)
  moreover have "(of_int d - 1) / of_int d \<le> (19 / 20 :: rat)"
    using d(1,2) by (simp add: field_simps)
  ultimately have nhi: "of_int n * hi \<le> of_int K + 19 / 20"
    by linarith
  have "of_int n * (1 / 2 ^ 52) < (2 ^ 40 :: rat) * (1 / 2 ^ 52)"
    using n40 by (intro mult_strict_right_mono) simp_all
  then have eps: "of_int n * (1 / 2 ^ 52) < (1 / 4096 :: rat)"
    by simp
  have "of_int n * r \<le> of_int n * (hi + 1 / 2 ^ 52)"
    using r(2) npos unfolding hi_def by (intro mult_left_mono) simp_all
  then have "y \<le> of_int n * hi + of_int n * (1 / 2 ^ 52)"
    by (simp only: y_def distrib_left)
  then have "y \<le> of_int K + 31 / 32"
    using nhi eps by linarith
  then have "y \<le> of_int (32 * K + 31) / 2 ^ 5"
    by simp
  moreover have "y < 2 powi (53 - int 5)"
  proof -
    have "y < 2 ^ 48"
      using y41 by (rule less_trans) simp
    then show ?thesis by simp
  qed
  ultimately have "fl y \<le> of_int (32 * K + 31) / 2 ^ 5"
    using ypos by (intro fl_grid_le)
  then have "fl y < of_int (K + 1)"
    by simp
  then have "\<lfloor>fl y\<rfloor> < K + 1"
    by (simp only: floor_less_iff)
  then have upper: "out \<le> K"
    by (simp add: out_def)
  have K: "of_int K \<le> of_int n * hi"
  proof -
    have "n * a = d * K + (n * a) mod d"
      by (simp add: K_def)
    moreover have "0 \<le> (n * a) mod d"
      using d(1) by simp
    ultimately have "d * K \<le> n * a"
      by linarith
    then have "(of_int (d * K) :: rat) \<le> of_int (n * a)"
      by (simp only: of_int_le_iff)
    then show ?thesis
      using d(1) by (simp add: hi_def field_simps)
  qed
  \<comment> \<open>the rate that gives the result exactly\<close>
  show ?thesis
  proof (cases "of_int n * lo \<le> of_int out")
    case True
    define \<rho> :: rat where "\<rho> = of_int out / of_int n"
    have e: "of_int n * \<rho> = of_int out"
      using npos by (simp add: \<rho>_def)
    have "lo \<le> \<rho>"
      using True npos by (simp add: \<rho>_def field_simps)
    moreover have "\<rho> \<le> hi"
    proof -
      have "(of_int out :: rat) \<le> of_int K"
        using upper by simp
      with K have "of_int out \<le> of_int n * hi"
        by simp
      then show ?thesis
        using npos by (simp add: \<rho>_def field_simps)
    qed
    moreover have "\<lfloor>of_int n * \<rho>\<rfloor> = out"
      by (simp add: e)
    ultimately show ?thesis
      unfolding out hi_def by metis
  next
    case False
    then have "of_int out < of_int n * lo"
      by simp
    then have "out \<le> L"
      by (simp add: L_def le_floor_iff)
    with lower have "out = \<lfloor>of_int n * lo\<rfloor>"
      by (simp add: L_def)
    then show ?thesis
      using lo(2) unfolding out by (intro exI [of _ lo]) simp
  qed
qed

lemma draw_bounds:
  "fl (1 / 4) = 1 / 4" "fl (13 / 20) \<le> 13 / 20 + 1 / 2 ^ 52" "1 / 20 \<le> fl (1 / 20)"
  "fl (1 / 5) \<le> 1 / 5 + 1 / 2 ^ 52"
  by code_simp+

lemma simulation_exact_rates:
  assumes sent: "0 < stats_get (stats c) ''sent''" "stats_get (stats c) ''sent'' < 2 ^ 40"
    and r1: "fl (1 / 4) \<le> r1" "r1 \<le> fl (13 / 20)"
    and r2: "fl (1 / 20) \<le> r2" "r2 \<le> fl (1 / 5)"
  shows "\<exists>(\<rho>1::rat) (\<rho>2::rat). 1 / 4 \<le> \<rho>1 \<and> \<rho>1 \<le> 13 / 20 \<and> 1 / 20 \<le> \<rho>2 \<and> \<rho>2 \<le> 1 / 5 \<and>
           opened_by c r1 = \<lfloor>of_int (stats_get (stats c) ''sent'') * \<rho>1\<rfloor> \<and>
           clicked_by (opened_by c r1) r2 = \<lfloor>of_int (opened_by c r1) * \<rho>2\<rfloor>"
proof -
  define n where "n = stats_get (stats c) ''sent''"
  have n: "0 < n" "n < 2 ^ 40"
    using sent by (simp_all add: n_def)
  have a1: "1 / 4 \<le> r1" "r1 \<le> of_int 13 / of_int 20 + 1 / 2 ^ 52"
    using r1 draw_bounds(1,2) by simp_all
  have a2: "1 / 20 \<le> r2" "r2 \<le> of_int 1 / of_int 5 + 1 / 2 ^ 52"
    using r2 draw_bounds(3,4) by simp_all
  obtain \<rho>1 :: rat where p1: "1 / 4 \<le> \<rho>1" "\<rho>1 \<le> of_int 13 / of_int 20"
    and o: "\<lfloor>fmul (py_float n) r1\<rfloor> = \<lfloor>of_int n * \<rho>1\<rfloor>"
    using floor_fmul_exact [OF n, of 20 13 "1 / 4" r1] a1 by auto
  define out where "out = opened_by c r1"
  have out: "out = \<lfloor>of_int n * \<rho>1\<rfloor>"
    using o by (simp add: out_def opened_by_def n_def)
  have "(0::rat) \<le> of_int n * \<rho>1"
    using n(1) p1(1) by simp
  then have out0: "0 \<le> out"
    by (simp add: out)
  have "of_int n * \<rho>1 \<le> of_int n * 1"
    using n(1) p1(2) by (intro mult_left_mono) simp_all
  also have "\<dots> < 2 ^ 40"
    using n(2) by simp
  finally have "of_int n * \<rho>1 < of_int (2 ^ 40)"
    by simp
  then have out40: "out < 2 ^ 40"
    by (simp only: out floor_less_iff)
  have "\<exists>\<rho>2 :: rat. 1 / 20 \<le> \<rho>2 \<and> \<rho>2 \<le> 1 / 5 \<and> clicked_by out r2 = \<lfloor>of_int out * \<rho>2\<rfloor>"
  proof (cases "out = 0")
    case True
    then have "clicked_by out r2 = \<lfloor>of_int out * (1 / 20)\<rfloor>"
      by (simp add: clicked_by_def fmul_def py_float_def)
    then show ?thesis
      by (intro exI [of _ "1 / 20"]) simp
  next
    case False
    with out0 have "0 < out"
      by simp
    from floor_fmul_exact [OF this out40, of 5 1 "1 / 20" r2] a2
    show ?thesis
      by (auto simp: clicked_by_def)
  qed
  then obtain \<rho>2 :: rat where "1 / 20 \<le> \<rho>2" "\<rho>2 \<le> 1 / 5"
    "clicked_by out r2 = \<lfloor>of_int out * \<rho>2\<rfloor>"
    by auto
  with p1 out show ?thesis
    unfolding out_def n_def by (intro exI [of _ \<rho>1] exI [of _ \<rho>2]) simp
qed

text \<open>
  C6. For a stored campaign with counters that are not negative, the performance
  report holds \<open>sent / (sent + failed) \<times> 100\<close>, \<open>opened / sent \<times> 100\<close>,
  \<open>clicked / opened \<times> 100\<close> and \<open>clicked / sent \<times> 100\<close>, each 0 when its denominator is 0
  and rounded to 2 decimals, \<open>clicked \<times> 15.0\<close> rounded to 2 decimals, and
  \<open>min(100, open_rate \<times> 0.6 + click_through_rate \<times> 4.0)\<close> rounded to 1 decimal; a missing
  counter counts as 0, and no division raises. For an id that no stored campaign has,
  the report raises NotFound.
\<close>

theorem get_campaign_performance_metrics:
  "(get_by_id (campaign_from_dict now) campaign_file cid = Inr None \<longrightarrow>
      get_campaign_performance now campaign_file cid = Inl NotFound)
   \<and> (get_by_id (campaign_from_dict now) campaign_file cid = Inr (Some c) \<and>
      0 \<le> stats_get (stats c) ''sent'' \<and> 0 \<le> stats_get (stats c) ''opened'' \<and>
      0 \<le> stats_get (stats c) ''failed'' \<longrightarrow>
      get_campaign_performance now campaign_file cid =
        Inr [(''sent'', PInt (stats_get (stats c) ''sent'')),
             (''opened'', PInt (stats_get (stats c) ''opened'')),
             (''clicked'', PInt (stats_get (stats c) ''clicked'')),
             (''failed'', PInt (stats_get (stats c) ''failed'')),
             (''delivery_rate'', percent (stats_get (stats c) ''sent'')
                  (stats_get (stats c) ''sent'' + stats_get (stats c) ''failed'')),
             (''open_rate'',
                percent (stats_get (stats c) ''opened'') (stats_get (stats c) ''sent'')),
             (''click_rate'',
                percent (stats_get (stats c) ''clicked'') (stats_get (stats c) ''opened'')),
             (''click_through_rate'',
                percent (stats_get (stats c) ''clicked'') (stats_get (stats c) ''sent'')),
             (''roi_prediction'',
                PFloat (py_round (fmul (py_float (stats_get (stats c) ''clicked'')) 15) 2)),
             (''engagement_score'', engagement (stats_get (stats c) ''sent'')
                  (stats_get (stats c) ''opened'') (stats_get (stats c) ''clicked'')),
             (''campaign_title'', PStr (title c)),
             (''campaign_status'', PStr (status c)),
             (''target_criteria'', PDict (target_segment_criteria c))])"
  by (auto simp: performance_found) (simp add: get_campaign_performance_def)

theorem get_campaign_performance_metrics_witness:
  "get_by_id (campaign_from_dict leap_day) [campaign_to_dict read_sale] ''k-9'' = Inr None
   \<and> get_campaign_performance leap_day [campaign_to_dict read_sale] ''k-9'' = Inl NotFound
   \<and> get_by_id (campaign_from_dict leap_day) [campaign_to_dict read_sale] ''k-1''
       = Inr (Some read_sale)
   \<and> stats read_sale = [(''sent'', 100), (''opened'', 40), (''clicked'', 8), (''failed'', 0)]
   \<and> get_campaign_performance leap_day [campaign_to_dict read_sale] ''k-1'' =
        Inr [(''sent'', PInt 100),
             (''opened'', PInt 40),
             (''clicked'', PInt 8),
             (''failed'', PInt 0),
             (''delivery_rate'', PFloat 100),
             (''open_rate'', PFloat 40),
             (''click_rate'', PFloat 20),
             (''click_through_rate'', PFloat 8),
             (''roi_prediction'', PFloat 120),
             (''engagement_score'', PFloat 56),
             (''campaign_title'', PStr ''Sale''),
             (''campaign_status'', PStr ''Sent''),
             (''target_criteria'', PDict [(''city'', PStr ''Ankara'')])]"
proof -
  have nf: "get_by_id (campaign_from_dict leap_day) [campaign_to_dict read_sale] ''k-9'' = Inr None"
    by (simp add: read_sale_def ankara_sale_def)
  have "valid_datetime (created_at read_sale)"
    by (simp add: read_sale_def ankara_sale_def valid_leap_day)
  then have "campaign_from_dict leap_day (campaign_to_dict read_sale) = Inr read_sale"
    by (rule campaign_round_trip)
  then have f: "get_by_id (campaign_from_dict leap_day) [campaign_to_dict read_sale] ''k-1''
                  = Inr (Some read_sale)"
    by (simp add: read_sale_def ankara_sale_def)
  have s: "stats read_sale = [(''sent'', 100), (''opened'', 40), (''clicked'', 8), (''failed'', 0)]"
    by (simp add: read_sale_def)
  have g: "stats_get (stats read_sale) ''sent'' = 100" "stats_get (stats read_sale) ''opened'' = 40"
    "stats_get (stats read_sale) ''clicked'' = 8" "stats_get (stats read_sale) ''failed'' = 0"
    by (simp_all add: s stats_get_def)
  have m: "title read_sale = ''Sale''" "status read_sale = ''Sent''"
    "target_segment_criteria read_sale = [(''city'', PStr ''Ankara'')]"
    by (simp_all add: read_sale_def ankara_sale_def)
  note t = get_campaign_performance_metrics [where now = leap_day
      and campaign_file = "[campaign_to_dict read_sale]"]
  have p: "get_by_id (campaign_from_dict leap_day) [campaign_to_dict read_sale] ''k-1''
             = Inr (Some read_sale) \<and>
           0 \<le> stats_get (stats read_sale) ''sent'' \<and>
           0 \<le> stats_get (stats read_sale) ''opened'' \<and>
           0 \<le> stats_get (stats read_sale) ''failed''"
    by (intro conjI f) (simp_all add: g)
  have 1: "get_campaign_performance leap_day [campaign_to_dict read_sale] ''k-9'' = Inl NotFound"
    by (rule t [where cid = "''k-9''", THEN conjunct1, THEN mp, OF nf])
  have 2: "get_campaign_performance leap_day [campaign_to_dict read_sale] ''k-1'' =
        Inr [(''sent'', PInt 100),
             (''opened'', PInt 40),
             (''clicked'', PInt 8),
             (''failed'', PInt 0),
             (''delivery_rate'', PFloat 100),
             (''open_rate'', PFloat 40),
             (''click_rate'', PFloat 20),
             (''click_through_rate'', PFloat 8),
             (''roi_prediction'', PFloat 120),
             (''engagement_score'', PFloat 56),
             (''campaign_title'', PStr ''Sale''),
             (''campaign_status'', PStr ''Sent''),
             (''target_criteria'', PDict [(''city'', PStr ''Ankara'')])]"
    using t [where cid = "''k-1''" and c = read_sale, THEN conjunct2, THEN mp, OF p]
    by (simp only: g m example_values)
  show ?thesis
    using nf f s 1 2 by blast
qed

text \<open>
  C7. \<open>simulate_engagement\<close> raises NotFound for an id that no stored campaign has. When
  the stored campaign is not just launched (nothing sent, or something opened or
  clicked already) it returns the campaign and writes nothing. When it is just
  launched, it sets \<open>opened\<close> to \<open>floor(sent \<times> r1)\<close> and \<open>clicked\<close> to
  \<open>floor(opened \<times> r2)\<close> for the drawn rates \<open>r1\<close> in [0.25, 0.65] and \<open>r2\<close> in
  [0.05, 0.20], stores the campaign and returns it; and once one of the two counters is
  not 0, every further call returns that campaign and writes nothing. The products are
  products of floats; for fewer than \<open>2 ^ 40\<close> sent mails the two counters are also the
  floors of the exact products with rates of the two intervals.
\<close>

theorem simulate_engagement_behaviour:
  "(get_by_id (campaign_from_dict now) campaign_file cid = Inr None \<longrightarrow>
      simulate_engagement now r1 r2 campaign_file cid = (Inl NotFound, campaign_file))
   \<and> (get_by_id (campaign_from_dict now) campaign_file cid = Inr (Some c) \<and>
      \<not> just_launched c \<longrightarrow>
      simulate_engagement now r1 r2 campaign_file cid = (Inr c, campaign_file))
   \<and> (valid_datetime now \<and>
      get_by_id (campaign_from_dict now) campaign_file cid = Inr (Some c) \<and> just_launched c \<and>
      fl (1 / 4) \<le> r1 \<and> r1 \<le> fl (13 / 20) \<and> fl (1 / 20) \<le> r2 \<and> r2 \<le> fl (1 / 5) \<longrightarrow>
      simulate_engagement now r1 r2 campaign_file cid =
        (Inr (simulation c r1 r2),
         fst (update campaign_to_dict campaign_file cid (simulation c r1 r2)))
      \<and> get_by_id (campaign_from_dict later)
           (fst (update campaign_to_dict campaign_file cid (simulation c r1 r2))) cid
         = Inr (Some (simulation c r1 r2))
      \<and> stats_get (stats (simulation c r1 r2)) ''sent'' = stats_get (stats c) ''sent''
      \<and> stats_get (stats (simulation c r1 r2)) ''opened'' = opened_by c r1
      \<and> stats_get (stats (simulation c r1 r2)) ''clicked'' = clicked_by (opened_by c r1) r2
      \<and> (stats_get (stats c) ''sent'' < 2 ^ 40 \<longrightarrow>
           (\<exists>(\<rho>1::rat) (\<rho>2::rat).
              1 / 4 \<le> \<rho>1 \<and> \<rho>1 \<le> 13 / 20 \<and> 1 / 20 \<le> \<rho>2 \<and> \<rho>2 \<le> 1 / 5 \<and>
              opened_by c r1 = \<lfloor>of_int (stats_get (stats c) ''sent'') * \<rho>1\<rfloor> \<and>
              clicked_by (opened_by c r1) r2 = \<lfloor>of_int (opened_by c r1) * \<rho>2\<rfloor>))
      \<and> (opened_by c r1 \<noteq> 0 \<or> clicked_by (opened_by c r1) r2 \<noteq> 0 \<longrightarrow>
           simulate_engagement later r1' r2'
             (fst (update campaign_to_dict campaign_file cid (simulation c r1 r2))) cid
           = (Inr (simulation c r1 r2),
              fst (update campaign_to_dict campaign_file cid (simulation c r1 r2)))))"
proof (intro conjI impI)
  assume "get_by_id (campaign_from_dict now) campaign_file cid = Inr None"
  then show "simulate_engagement now r1 r2 campaign_file cid = (Inl NotFound, campaign_file)"
    by (rule simulate_not_found)
next
  assume "get_by_id (campaign_from_dict now) campaign_file cid = Inr (Some c) \<and>
      \<not> just_launched c"
  then show "simulate_engagement now r1 r2 campaign_file cid = (Inr c, campaign_file)"
    by (simp add: simulate_noop)
next
  assume a: "valid_datetime now \<and>
      get_by_id (campaign_from_dict now) campaign_file cid = Inr (Some c) \<and> just_launched c \<and>
      fl (1 / 4) \<le> r1 \<and> r1 \<le> fl (13 / 20) \<and> fl (1 / 20) \<le> r2 \<and> r2 \<le> fl (1 / 5)"
  then have now: "valid_datetime now"
    and found: "get_by_id (campaign_from_dict now) campaign_file cid = Inr (Some c)"
    and trig: "just_launched c"
    by simp_all
  have "(0::rat) \<le> fl (1 / 4)" "(0::rat) \<le> fl (1 / 20)"
    by (simp_all add: fl_nonneg)
  with a have r: "0 \<le> r1" "0 \<le> r2"
    by simp_all
  show "simulate_engagement now r1 r2 campaign_file cid =
        (Inr (simulation c r1 r2),
         fst (update campaign_to_dict campaign_file cid (simulation c r1 r2)))"
    using simulate_triggered [OF found trig r]
    by (simp add: simulation_def opened_by_def clicked_by_def)
  show stored: "get_by_id (campaign_from_dict later)
           (fst (update campaign_to_dict campaign_file cid (simulation c r1 r2))) cid
         = Inr (Some (simulation c r1 r2))"
    unfolding simulation_def by (rule simulate_persisted [OF found now])
  show "stats_get (stats (simulation c r1 r2)) ''sent'' = stats_get (stats c) ''sent''"
    by (simp add: simulation_def stats_get_update)
  show "stats_get (stats (simulation c r1 r2)) ''opened'' = opened_by c r1"
    by (simp add: simulation_def stats_get_update)
  show "stats_get (stats (simulation c r1 r2)) ''clicked'' = clicked_by (opened_by c r1) r2"
    by (simp add: simulation_def stats_get_update)
  show "\<exists>(\<rho>1::rat) (\<rho>2::rat).
              1 / 4 \<le> \<rho>1 \<and> \<rho>1 \<le> 13 / 20 \<and> 1 / 20 \<le> \<rho>2 \<and> \<rho>2 \<le> 1 / 5 \<and>
              opened_by c r1 = \<lfloor>of_int (stats_get (stats c) ''sent'') * \<rho>1\<rfloor> \<and>
              clicked_by (opened_by c r1) r2 = \<lfloor>of_int (opened_by c r1) * \<rho>2\<rfloor>"
    if "stats_get (stats c) ''sent'' < 2 ^ 40"
  proof (rule simulation_exact_rates [OF _ that])
    show "0 < stats_get (stats c) ''sent''"
      using trig by (simp add: just_launched_def)
  qed (use a in simp_all)
  show "simulate_engagement later r1' r2'
             (fst (update campaign_to_dict campaign_file cid (simulation c r1 r2))) cid
           = (Inr (simulation c r1 r2),
              fst (update campaign_to_dict campaign_file cid (simulation c r1 r2)))"
    if "opened_by c r1 \<noteq> 0 \<or> clicked_by (opened_by c r1) r2 \<noteq> 0"
  proof -
    from that have "\<not> just_launched (simulation c r1 r2)"
      unfolding simulation_def by (rule simulated_not_just_launched)
    with stored show ?thesis
      by (rule simulate_noop)
  qed
qed

theorem simulate_engagement_behaviour_witness:
  "get_by_id (campaign_from_dict leap_day) [campaign_to_dict sent_sale] ''k-9'' = Inr None
   \<and> simulate_engagement leap_day (1 / 2) (1 / 8) [campaign_to_dict sent_sale] ''k-9''
       = (Inl NotFound, [campaign_to_dict sent_sale])
   \<and> valid_datetime leap_day
   \<and> get_by_id (campaign_from_dict leap_day) [campaign_to_dict sent_sale] ''k-1''
       = Inr (Some sent_sale)
   \<and> just_launched sent_sale
   \<and> fl (1 / 4) \<le> 1 / 2 \<and> 1 / 2 \<le> fl (13 / 20) \<and> fl (1 / 20) \<le> 1 / 8 \<and> 1 / 8 \<le> fl (1 / 5)
   \<and> stats_get (stats sent_sale) ''sent'' < 2 ^ 40
   \<and> (\<exists>(\<rho>1::rat) (\<rho>2::rat).
         1 / 4 \<le> \<rho>1 \<and> \<rho>1 \<le> 13 / 20 \<and> 1 / 20 \<le> \<rho>2 \<and> \<rho>2 \<le> 1 / 5 \<and>
         50 = \<lfloor>100 * \<rho>1\<rfloor> \<and> 6 = \<lfloor>50 * \<rho>2\<rfloor>)
   \<and> simulate_engagement leap_day (1 / 2) (1 / 8) [campaign_to_dict sent_sale] ''k-1''
       = (Inr (sent_sale\<lparr>stats := [(''sent'', 100), (''opened'', 50), (''clicked'', 6)]\<rparr>),
          [campaign_to_dict
             (sent_sale\<lparr>stats := [(''sent'', 100), (''opened'', 50), (''clicked'', 6)]\<rparr>)])
   \<and> simulate_engagement leap_day (3 / 5) (1 / 10)
        [campaign_to_dict
           (sent_sale\<lparr>stats := [(''sent'', 100), (''opened'', 50), (''clicked'', 6)]\<rparr>)] ''k-1''
       = (Inr (sent_sale\<lparr>stats := [(''sent'', 100), (''opened'', 50), (''clicked'', 6)]\<rparr>),
          [campaign_to_dict
             (sent_sale\<lparr>stats := [(''sent'', 100), (''opened'', 50), (''clicked'', 6)]\<rparr>)])"
proof -
  have nf: "get_by_id (campaign_from_dict leap_day) [campaign_to_dict sent_sale] ''k-9'' = Inr None"
    by (simp add: sent_sale_def ankara_sale_def)
  have "valid_datetime (created_at sent_sale)"
    by (simp add: sent_sale_def ankara_sale_def valid_leap_day)
  then have "campaign_from_dict leap_day (campaign_to_dict sent_sale) = Inr sent_sale"
    by (rule campaign_round_trip)
  then have f: "get_by_id (campaign_from_dict leap_day) [campaign_to_dict sent_sale] ''k-1''
                  = Inr (Some sent_sale)"
    by (simp add: sent_sale_def ankara_sale_def)
  have j: "just_launched sent_sale"
    by (simp add: just_launched_def sent_sale_def stats_get_def)
  have b: "fl (1 / 4) \<le> 1 / 2" "1 / 2 \<le> fl (13 / 20)" "fl (1 / 20) \<le> 1 / 8" "1 / 8 \<le> fl (1 / 5)"
    by code_simp+
  have o: "opened_by sent_sale (1 / 2) = 50" "clicked_by 50 (1 / 8) = 6"
    by code_simp+
  have s: "simulation sent_sale (1 / 2) (1 / 8)
             = sent_sale\<lparr>stats := [(''sent'', 100), (''opened'', 50), (''clicked'', 6)]\<rparr>"
    by (simp add: simulation_def o simulated_def) (simp add: sent_sale_def)
  have u: "fst (update campaign_to_dict [campaign_to_dict sent_sale] ''k-1'' x)
             = [campaign_to_dict x]" for x
    by (simp add: sent_sale_def ankara_sale_def)
  note t = simulate_engagement_behaviour [where now = leap_day
      and campaign_file = "[campaign_to_dict sent_sale]" and ?r1.0 = "1 / 2" and ?r2.0 = "1 / 8"]
  have p: "valid_datetime leap_day \<and>
      get_by_id (campaign_from_dict leap_day) [campaign_to_dict sent_sale] ''k-1''
        = Inr (Some sent_sale) \<and> just_launched sent_sale \<and>
      fl (1 / 4) \<le> 1 / 2 \<and> 1 / 2 \<le> fl (13 / 20) \<and> fl (1 / 20) \<le> 1 / 8 \<and> 1 / 8 \<le> fl (1 / 5)"
    using valid_leap_day f j b by blast
  have n: "opened_by sent_sale (1 / 2) \<noteq> 0 \<or> clicked_by (opened_by sent_sale (1 / 2)) (1 / 8) \<noteq> 0"
    by (simp add: o)
  have 1: "simulate_engagement leap_day (1 / 2) (1 / 8) [campaign_to_dict sent_sale] ''k-9''
       = (Inl NotFound, [campaign_to_dict sent_sale])"
    by (rule t [where cid = "''k-9''", THEN conjunct1, THEN mp, OF nf])
  note t3 = t [where cid = "''k-1''" and c = sent_sale and later = leap_day
      and r1' = "3 / 5" and r2' = "1 / 10", THEN conjunct2, THEN conjunct2, THEN mp, OF p]
  have 2: "simulate_engagement leap_day (1 / 2) (1 / 8) [campaign_to_dict sent_sale] ''k-1''
       = (Inr (sent_sale\<lparr>stats := [(''sent'', 100), (''opened'', 50), (''clicked'', 6)]\<rparr>),
          [campaign_to_dict
             (sent_sale\<lparr>stats := [(''sent'', 100), (''opened'', 50), (''clicked'', 6)]\<rparr>)])"
    using t3 [THEN conjunct1] by (simp only: s u)
  have 3: "simulate_engagement leap_day (3 / 5) (1 / 10)
        [campaign_to_dict
           (sent_sale\<lparr>stats := [(''sent'', 100), (''opened'', 50), (''clicked'', 6)]\<rparr>)] ''k-1''
       = (Inr (sent_sale\<lparr>stats := [(''sent'', 100), (''opened'', 50), (''clicked'', 6)]\<rparr>),
          [campaign_to_dict
             (sent_sale\<lparr>stats := [(''sent'', 100), (''opened'', 50), (''clicked'', 6)]\<rparr>)])"
    using t3 [THEN conjunct2, THEN conjunct2, THEN conjunct2, THEN conjunct2, THEN conjunct2,
        THEN conjunct2, THEN mp, OF n]
    by (simp only: s u)
  have g: "stats_get (stats sent_sale) ''sent'' = 100"
    by (simp add: sent_sale_def stats_get_def)
  have l: "stats_get (stats sent_sale) ''sent'' < 2 ^ 40"
    by (simp add: g)
  have 4: "\<exists>(\<rho>1::rat) (\<rho>2::rat).
         1 / 4 \<le> \<rho>1 \<and> \<rho>1 \<le> 13 / 20 \<and> 1 / 20 \<le> \<rho>2 \<and> \<rho>2 \<le> 1 / 5 \<and>
         50 = \<lfloor>100 * \<rho>1\<rfloor> \<and> 6 = \<lfloor>50 * \<rho>2\<rfloor>"
    using t3 [THEN conjunct2, THEN conjunct2, THEN conjunct2, THEN conjunct2, THEN conjunct2,
        THEN conjunct1, THEN mp, OF l]
    by (simp add: o g)
  show ?thesis
    using nf valid_leap_day f j b l 1 2 3 4 by blast
qed




end
